theory Spec2Isabelle
  imports Complex_Main
begin

section \<open>Python values used by the device importers\<close>

subsection \<open>Floats\<close>

text \<open>
  The calibration values are Python floats (IEEE 754 binary64).  A finite float is
  represented by the rational number it denotes.  \<open>fl_round\<close> rounds a rational to the
  nearest binary64 value, ties to even, with gradual underflow below \<open>2^-1022\<close>.
  The importers only compute \<open>1 - x\<close>, \<open>x * 1e-6\<close> and \<open>x * 1e-9\<close>, none of which can
  leave the finite range for a finite \<open>x\<close>, so overflow is not represented.
\<close>

type_synonym pyfloat = rat

function log2_ge1 :: "rat \<Rightarrow> int" where
  "log2_ge1 x = (if x < 2 then 0 else 1 + log2_ge1 (x / 2))"
  by pat_completeness auto
termination
proof (relation "measure (\<lambda>x. nat \<lfloor>x\<rfloor>)")
  show "wf (measure (\<lambda>x::rat. nat \<lfloor>x\<rfloor>))" by simp
next
  fix x :: rat
  assume big: "\<not> x < 2"
  then have "x / 2 \<le> x - 1" by simp
  then have "\<lfloor>x / 2\<rfloor> \<le> \<lfloor>x - 1\<rfloor>" by (rule floor_mono)
  moreover have "1 \<le> \<lfloor>x\<rfloor>" using big by linarith
  ultimately show "(x / 2, x) \<in> measure (\<lambda>x. nat \<lfloor>x\<rfloor>)" by simp
qed

function log2_lt1 :: "rat \<Rightarrow> int" where
  "log2_lt1 x = (if x \<le> 0 \<or> 1 \<le> x then 0 else log2_lt1 (2 * x) - 1)"
  by pat_completeness auto
termination
proof (relation "measure (\<lambda>x. nat \<lfloor>1 / x\<rfloor>)")
  show "wf (measure (\<lambda>x::rat. nat \<lfloor>1 / x\<rfloor>))" by simp
next
  fix x :: rat
  assume "\<not> (x \<le> 0 \<or> 1 \<le> x)"
  then have x: "0 < x" "x < 1" by auto
  define y where "y = 1 / x"
  have y: "1 < y" using x by (simp add: y_def)
  have fl: "1 \<le> \<lfloor>y\<rfloor>" using y by (simp add: le_floor_iff)
  have "y < of_int \<lfloor>y\<rfloor> + 1" by linarith
  then have "y / 2 < (of_int \<lfloor>y\<rfloor> + 1) / 2" by simp
  moreover have "(of_int \<lfloor>y\<rfloor> + 1) / 2 \<le> (of_int \<lfloor>y\<rfloor> :: rat)"
    using fl by simp
  ultimately have "y / 2 < of_int \<lfloor>y\<rfloor>" by (rule less_le_trans)
  then have "\<lfloor>y / 2\<rfloor> < \<lfloor>y\<rfloor>" by (simp add: floor_less_iff)
  moreover have "1 / (2 * x) = y / 2" by (simp add: y_def)
  ultimately have lt: "\<lfloor>1 / (2 * x)\<rfloor> < \<lfloor>1 / x\<rfloor>" by (simp only: y_def)
  show "(2 * x, x) \<in> measure (\<lambda>x. nat \<lfloor>1 / x\<rfloor>)"
    using lt fl unfolding y_def in_measure by linarith
qed

declare log2_ge1.simps [simp del]
declare log2_lt1.simps [simp del]

definition pow2 :: "int \<Rightarrow> rat" where
  "pow2 e = (if 0 \<le> e then 2 ^ nat e else 1 / 2 ^ nat (- e))"

definition round_half_even :: "rat \<Rightarrow> int" where
  "round_half_even y =
     (let f = \<lfloor>y\<rfloor>; r = y - of_int f
      in if r < 1 / 2 then f else if 1 / 2 < r then f + 1 else if even f then f else f + 1)"

definition fl_round :: "rat \<Rightarrow> pyfloat" where
  "fl_round x =
     (if x = 0 then 0
      else let a = \<bar>x\<bar>;
               e = max (if 1 \<le> a then log2_ge1 a else log2_lt1 a) (- 1022);
               q = pow2 (e - 52)
           in of_int (round_half_even (x / q)) * q)"

text \<open>Python's \<open>a * b\<close> and \<open>a - b\<close> on floats: the exact result, rounded once.\<close>

definition fmul :: "pyfloat \<Rightarrow> pyfloat \<Rightarrow> pyfloat" where
  "fmul a b = fl_round (a * b)"

definition fsub :: "pyfloat \<Rightarrow> pyfloat \<Rightarrow> pyfloat" where
  "fsub a b = fl_round (a - b)"

text \<open>The float literals \<open>1e-6\<close> and \<open>1e-9\<close> of the source: the nearest floats to the
  decimal numbers written.\<close>

definition lit_1e_6 :: pyfloat where
  "lit_1e_6 = fl_round (1 / 1000000)"

definition lit_1e_9 :: pyfloat where
  "lit_1e_9 = fl_round (1 / 1000000000)"

subsection \<open>Exceptions\<close>

text \<open>
  Every \<open>raise\<close> of the source and every failing dictionary lookup, tuple unpacking or
  index is a value \<open>Inl e\<close> of the result type \<open>py_error + 'a\<close>.  \<open>ValueError\<close> carries
  its message.  \<open>UnknownDeviceError\<close> is the error class that the specification names
  for an unknown device; no statement of the source raises it.
\<close>

datatype py_error =
    KeyError
  | ValueError string
  | IndexError
  | FileNotFoundError
  | UnknownDeviceError

subsection \<open>\<open>str\<close> on integers and \<open>range\<close>\<close>

definition digit_char :: "nat \<Rightarrow> char" where
  "digit_char d = ''0123456789'' ! d"

function str_nat :: "nat \<Rightarrow> string" where
  "str_nat n = (if n < 10 then [digit_char n] else str_nat (n div 10) @ [digit_char (n mod 10)])"
  by pat_completeness auto
termination
  by (relation "measure id") auto

declare str_nat.simps [simp del]

definition str :: "int \<Rightarrow> string" where
  "str i = (if i < 0 then CHR ''-'' # str_nat (nat (- i)) else str_nat (nat i))"

definition py_range :: "int \<Rightarrow> int list" where
  "py_range n = map int [0..<nat n]"

subsection \<open>\<open>for\<close> loops whose body may raise\<close>

fun for_each :: "('s \<Rightarrow> 'a \<Rightarrow> py_error + 's) \<Rightarrow> 'a list \<Rightarrow> 's \<Rightarrow> py_error + 's" where
  "for_each body [] s = Inr s"
| "for_each body (x # xs) s =
     (case body s x of Inl e \<Rightarrow> Inl e | Inr s' \<Rightarrow> for_each body xs s')"

text \<open>\<open>for a, b in xs\<close>: each element is unpacked into exactly two values.\<close>

definition unpack2 :: "int list \<Rightarrow> py_error + (int \<times> int)" where
  "unpack2 xs =
     (case xs of
        [a, b] \<Rightarrow> Inr (a, b)
      | _ \<Rightarrow>
          if length xs < 2
          then Inl (ValueError (''not enough values to unpack (expected 2, got ''
                      @ str (int (length xs)) @ '')''))
          else Inl (ValueError ''too many values to unpack (expected 2)''))"

section \<open>The canonical data model\<close>

text \<open>
  Modelled from the spec: \<open>DeviceCalibration\<close> and \<open>Device\<close> (\<open>calibration.py\<close> and
  \<open>device.py\<close> are imported by the importers but are not part of the sources).  The
  fields are the ones the importers assign; every table is a dictionary, empty in a
  newly constructed \<open>DeviceCalibration()\<close> (a key that is absent means unknown).
\<close>

record DeviceCalibration =
  single_qubit_gate_fidelity :: "int \<rightharpoonup> (string \<rightharpoonup> pyfloat)"
  single_qubit_gate_duration :: "int \<rightharpoonup> (string \<rightharpoonup> pyfloat)"
  two_qubit_gate_fidelity :: "(int \<times> int) \<rightharpoonup> (string \<rightharpoonup> pyfloat)"
  two_qubit_gate_duration :: "(int \<times> int) \<rightharpoonup> (string \<rightharpoonup> pyfloat)"
  readout_fidelity :: "int \<rightharpoonup> pyfloat"
  readout_duration :: "int \<rightharpoonup> pyfloat"
  t1 :: "int \<rightharpoonup> pyfloat"
  t2 :: "int \<rightharpoonup> pyfloat"

definition DeviceCalibration_init :: DeviceCalibration where
  "DeviceCalibration_init =
     \<lparr> single_qubit_gate_fidelity = Map.empty, single_qubit_gate_duration = Map.empty,
       two_qubit_gate_fidelity = Map.empty, two_qubit_gate_duration = Map.empty,
       readout_fidelity = Map.empty, readout_duration = Map.empty,
       t1 = Map.empty, t2 = Map.empty \<rparr>"

record Device =
  name :: string
  num_qubits :: int
  basis_gates :: "string list"
  coupling_map :: "int list list"
  calibration :: DeviceCalibration

section \<open>Calibration files\<close>

text \<open>
  The decoded JSON documents, typed as the \<open>TypedDict\<close> classes of the source declare
  them.  The per-qubit classes share their first fields, so they are record extensions:
  \<open>QubitPropertiesIBM\<close> and \<open>QubitPropertiesOpenAccess\<close> (\<open>ibm.py\<close>; the latter is
  \<open>QubitProperties\<close> in \<open>ibm_open_access.py\<close>) and \<open>QubitProperties\<close> (\<open>oqc.py\<close>).
  The top-level keys \<open>name\<close>, \<open>basis_gates\<close>, \<open>num_qubits\<close>, \<open>connectivity\<close> and
  \<open>properties\<close> carry the prefix \<open>json_\<close>, since the \<open>Device\<close> fields have the same
  names.  Nested dictionaries keyed by strings stay dictionaries: a missing key raises
  \<open>KeyError\<close>.
\<close>

record QubitTimes =
  T1 :: pyfloat
  T2 :: pyfloat

record QubitPropertiesCommon = QubitTimes +
  eRO :: pyfloat
  tRO :: pyfloat
  eID :: pyfloat
  eSX :: pyfloat
  eX :: pyfloat

record QubitPropertiesIBM = QubitPropertiesCommon +
  eCX :: "string \<rightharpoonup> pyfloat"
  tCX :: "string \<rightharpoonup> pyfloat"

record QubitPropertiesOpenAccess = QubitPropertiesCommon +
  eECR :: "string \<rightharpoonup> pyfloat"
  tECR :: "string \<rightharpoonup> pyfloat"

record 'p CalibrationFile =
  json_name :: string
  json_basis_gates :: "string list"
  json_num_qubits :: int
  json_connectivity :: "int list list"
  json_properties :: 'p

type_synonym IBMCalibration = "(string \<rightharpoonup> QubitPropertiesIBM) CalibrationFile"
type_synonym IBMOpenAccessCalibration = "(string \<rightharpoonup> QubitPropertiesOpenAccess) CalibrationFile"

section \<open>The file-based IBM importers\<close>

text \<open>
  The first loop of \<open>import_backend\<close>, the same statements in \<open>IBMProvider\<close>
  (\<open>ibm.py\<close>, lines 178 to 188), in \<open>IBMOpenAccessProvider\<close> (\<open>ibm.py\<close>, lines 252 to 262)
  and in \<open>IBMOpenAccessProvider\<close> (\<open>ibm_open_access.py\<close>, lines 74 to 86).
\<close>

definition file_qubit_body ::
  "(string \<rightharpoonup> 'a QubitPropertiesCommon_scheme) \<Rightarrow> DeviceCalibration \<Rightarrow> int
     \<Rightarrow> py_error + DeviceCalibration" where
  "file_qubit_body props cal q =
     (case props (str q) of
        None \<Rightarrow> Inl KeyError
      | Some p \<Rightarrow>
          Inr (cal\<lparr> single_qubit_gate_fidelity := (single_qubit_gate_fidelity cal)
                       (q \<mapsto> [''id'' \<mapsto> fsub 1 (eID p), ''rz'' \<mapsto> 1,
                              ''sx'' \<mapsto> fsub 1 (eSX p), ''x'' \<mapsto> fsub 1 (eX p)]),
                    readout_fidelity := (readout_fidelity cal)(q \<mapsto> fsub 1 (eRO p)),
                    readout_duration := (readout_duration cal)(q \<mapsto> fmul (tRO p) lit_1e_9),
                    t1 := (t1 cal)(q \<mapsto> fmul (T1 p) lit_1e_6),
                    t2 := (t2 cal)(q \<mapsto> fmul (T2 p) lit_1e_6) \<rparr>))"

text \<open>
  The second loop, over the coupling map.  The three importers differ in the gate name
  and in the two per-qubit dictionaries that the error and the duration are read from,
  which are the parameters \<open>gname\<close>, \<open>err_key\<close> and \<open>dur_key\<close>.
\<close>

definition file_edge_body ::
  "string \<Rightarrow> ('p \<Rightarrow> string \<rightharpoonup> pyfloat) \<Rightarrow> ('p \<Rightarrow> string \<rightharpoonup> pyfloat) \<Rightarrow> (string \<rightharpoonup> 'p)
     \<Rightarrow> DeviceCalibration \<Rightarrow> int list \<Rightarrow> py_error + DeviceCalibration" where
  "file_edge_body gname err_key dur_key props cal e =
     (case unpack2 e of
        Inl ex \<Rightarrow> Inl ex
      | Inr (qubit1, qubit2) \<Rightarrow>
          (let edge = str qubit1 @ ''_'' @ str qubit2 in
           case props (str qubit1) of
             None \<Rightarrow> Inl KeyError
           | Some p \<Rightarrow>
               (case err_key p edge of
                  None \<Rightarrow> Inl KeyError
                | Some err \<Rightarrow>
                    (case dur_key p edge of
                       None \<Rightarrow> Inl KeyError
                     | Some d \<Rightarrow>
                         Inr (cal\<lparr> two_qubit_gate_fidelity := (two_qubit_gate_fidelity cal)
                                      ((qubit1, qubit2) \<mapsto> [gname \<mapsto> fsub 1 err]),
                                   two_qubit_gate_duration := (two_qubit_gate_duration cal)
                                      ((qubit1, qubit2) \<mapsto> [gname \<mapsto> fmul d lit_1e_9]) \<rparr>)))))"

text \<open>
  \<open>import_backend\<close> on the decoded document (\<open>path.open()\<close> and \<open>json.load\<close> produce
  it): the device fields are copied, the two loops fill a new calibration record, and
  any exception leaves no device.
\<close>

definition file_import_backend ::
  "string \<Rightarrow> ('a QubitPropertiesCommon_scheme \<Rightarrow> string \<rightharpoonup> pyfloat)
     \<Rightarrow> ('a QubitPropertiesCommon_scheme \<Rightarrow> string \<rightharpoonup> pyfloat)
     \<Rightarrow> (string \<rightharpoonup> 'a QubitPropertiesCommon_scheme) CalibrationFile
     \<Rightarrow> py_error + Device" where
  "file_import_backend gname err_key dur_key c =
     (case for_each (file_qubit_body (json_properties c))
             (py_range (json_num_qubits c)) DeviceCalibration_init of
        Inl ex \<Rightarrow> Inl ex
      | Inr cal1 \<Rightarrow>
          (case for_each (file_edge_body gname err_key dur_key (json_properties c))
                  (json_connectivity c) cal1 of
             Inl ex \<Rightarrow> Inl ex
           | Inr cal2 \<Rightarrow>
               Inr \<lparr> name = json_name c, num_qubits = json_num_qubits c,
                     basis_gates = json_basis_gates c,
                     coupling_map = json_connectivity c, calibration = cal2 \<rparr>))"

text \<open>\<open>IBMProvider.import_backend\<close> (\<open>ibm.py\<close>): gate \<open>cx\<close>, error from \<open>eCX\<close>,
  duration from \<open>tCX\<close>.\<close>

definition IBMProvider_import_backend :: "IBMCalibration \<Rightarrow> py_error + Device" where
  "IBMProvider_import_backend = file_import_backend ''cx'' eCX tCX"

text \<open>\<open>IBMOpenAccessProvider.import_backend\<close> as defined in \<open>ibm.py\<close>: gate \<open>ecr\<close>,
  error from \<open>eECR\<close>, duration from \<open>tECR\<close>.\<close>

definition ibm_IBMOpenAccessProvider_import_backend ::
  "IBMOpenAccessCalibration \<Rightarrow> py_error + Device" where
  "ibm_IBMOpenAccessProvider_import_backend = file_import_backend ''ecr'' eECR tECR"

text \<open>\<open>IBMOpenAccessProvider.import_backend\<close> as defined in \<open>ibm_open_access.py\<close>:
  gate \<open>ecr\<close>, error from \<open>eECR\<close>, and the duration (line 95) from \<open>eECR\<close> as well.\<close>

definition ibm_open_access_IBMOpenAccessProvider_import_backend ::
  "IBMOpenAccessCalibration \<Rightarrow> py_error + Device" where
  "ibm_open_access_IBMOpenAccessProvider_import_backend = file_import_backend ''ecr'' eECR eECR"

text \<open>
  A well-formed calibration file (the schema of the file format): every qubit of
  \<open>range(num_qubits)\<close> has a property block, every connectivity entry is a pair, and
  the property block of its first qubit has an entry for the edge \<open>"{q1}_{q2}"\<close> in both
  two-qubit dictionaries.
\<close>

definition well_formed_file ::
  "('a QubitPropertiesCommon_scheme \<Rightarrow> string \<rightharpoonup> pyfloat)
     \<Rightarrow> ('a QubitPropertiesCommon_scheme \<Rightarrow> string \<rightharpoonup> pyfloat)
     \<Rightarrow> (string \<rightharpoonup> 'a QubitPropertiesCommon_scheme) CalibrationFile \<Rightarrow> bool" where
  "well_formed_file err_key dur_key c \<longleftrightarrow>
     (\<forall>q\<in>set (py_range (json_num_qubits c)). json_properties c (str q) \<noteq> None) \<and>
     (\<forall>e\<in>set (json_connectivity c).
        case e of
          [q1, q2] \<Rightarrow>
            (case json_properties c (str q1) of
               None \<Rightarrow> False
             | Some p \<Rightarrow> err_key p (str q1 @ ''_'' @ str q2) \<noteq> None
                         \<and> dur_key p (str q1 @ ''_'' @ str q2) \<noteq> None)
        | _ \<Rightarrow> False)"

definition well_formed_ibm :: "IBMCalibration \<Rightarrow> bool" where
  "well_formed_ibm = well_formed_file eCX tCX"

definition well_formed_open_access :: "IBMOpenAccessCalibration \<Rightarrow> bool" where
  "well_formed_open_access = well_formed_file eECR tECR"

section \<open>The OQC importer\<close>

record QubitProperties = QubitTimes +
  fRB :: pyfloat
  fRO :: pyfloat
  qubit :: pyfloat

record Coupling =
  control_qubit :: pyfloat
  target_qubit :: pyfloat

record TwoQubitProperties =
  coupling :: Coupling
  fECR :: pyfloat

record Properties =
  one_qubit :: "string \<rightharpoonup> QubitProperties"
  two_qubit :: "string \<rightharpoonup> TwoQubitProperties"

type_synonym OQCCalibration = "Properties CalibrationFile"

text \<open>The loop over \<open>range(device.num_qubits)\<close> (\<open>oqc.py\<close>, lines 106 to 113).  The
  dictionary comprehension gives every gate of \<open>["rz", "sx", "x"]\<close> the value \<open>fRB\<close>.\<close>

definition oqc_qubit_body ::
  "Properties \<Rightarrow> DeviceCalibration \<Rightarrow> int \<Rightarrow> py_error + DeviceCalibration" where
  "oqc_qubit_body props cal q =
     (case one_qubit props (str q) of
        None \<Rightarrow> Inl KeyError
      | Some p \<Rightarrow>
          Inr (cal\<lparr> single_qubit_gate_fidelity := (single_qubit_gate_fidelity cal)
                       (q \<mapsto> map_of (map (\<lambda>g. (g, fRB p)) [''rz'', ''sx'', ''x''])),
                    readout_fidelity := (readout_fidelity cal)(q \<mapsto> fRO p),
                    t1 := (t1 cal)(q \<mapsto> fmul (T1 p) lit_1e_6),
                    t2 := (t2 cal)(q \<mapsto> fmul (T2 p) lit_1e_6) \<rparr>))"

text \<open>The loop over the coupling map (lines 115 to 118); \<open>dict.fromkeys(["ecr"], v)\<close>.\<close>

definition oqc_edge_body ::
  "Properties \<Rightarrow> DeviceCalibration \<Rightarrow> int list \<Rightarrow> py_error + DeviceCalibration" where
  "oqc_edge_body props cal e =
     (case unpack2 e of
        Inl ex \<Rightarrow> Inl ex
      | Inr (qubit1, qubit2) \<Rightarrow>
          (case two_qubit props (str qubit1 @ ''-'' @ str qubit2) of
             None \<Rightarrow> Inl KeyError
           | Some tp \<Rightarrow>
               Inr (cal\<lparr> two_qubit_gate_fidelity := (two_qubit_gate_fidelity cal)
                            ((qubit1, qubit2) \<mapsto> map_of (map (\<lambda>g. (g, fECR tp)) [''ecr''])) \<rparr>)))"

text \<open>The body of \<open>OQCProvider.import_backend\<close> after the document is loaded.\<close>

definition oqc_import_calibration :: "OQCCalibration \<Rightarrow> py_error + Device" where
  "oqc_import_calibration c =
     (case for_each (oqc_qubit_body (json_properties c))
             (py_range (json_num_qubits c)) DeviceCalibration_init of
        Inl ex \<Rightarrow> Inl ex
      | Inr cal1 \<Rightarrow>
          (case for_each (oqc_edge_body (json_properties c)) (json_connectivity c) cal1 of
             Inl ex \<Rightarrow> Inl ex
           | Inr cal2 \<Rightarrow>
               Inr \<lparr> name = json_name c, num_qubits = json_num_qubits c,
                     basis_gates = json_basis_gates c,
                     coupling_map = json_connectivity c, calibration = cal2 \<rparr>))"

text \<open>
  \<open>OQCProvider.import_backend(name)\<close>: the document is the package resource
  \<open>calibration_files/{name}_calibration.json\<close>.  The resources of the package are the
  parameter \<open>files\<close>, from file name to decoded document; opening a resource that does
  not exist raises \<open>FileNotFoundError\<close>.
\<close>

definition OQCProvider_import_backend ::
  "(string \<rightharpoonup> OQCCalibration) \<Rightarrow> string \<Rightarrow> py_error + Device" where
  "OQCProvider_import_backend files nm =
     (case files (nm @ ''_calibration.json'') of
        None \<Rightarrow> Inl FileNotFoundError
      | Some c \<Rightarrow> oqc_import_calibration c)"

definition well_formed_oqc :: "OQCCalibration \<Rightarrow> bool" where
  "well_formed_oqc c \<longleftrightarrow>
     (\<forall>q\<in>set (py_range (json_num_qubits c)). one_qubit (json_properties c) (str q) \<noteq> None) \<and>
     (\<forall>e\<in>set (json_connectivity c).
        case e of
          [q1, q2] \<Rightarrow> two_qubit (json_properties c) (str q1 @ ''-'' @ str q2) \<noteq> None
        | _ \<Rightarrow> False)"

section \<open>The live-object importers\<close>

text \<open>
  The Qiskit objects are external collaborators and are represented by what the
  importers read from them.  A \<open>Gate\<close> has the fields \<open>gate\<close> and \<open>qubits\<close>.  Of a
  \<open>BackendProperties\<close> object the importer reads \<open>len(qubits)\<close>, the accessors \<open>t1\<close>,
  \<open>t2\<close>, \<open>readout_error\<close>, \<open>readout_length\<close>, \<open>gate_error\<close>, \<open>gate_length\<close> (each may
  raise) and the list \<open>gates\<close>; the fields carry the prefix \<open>bp_\<close>.
\<close>

record Gate =
  gate :: string
  qubits :: "int list"

record BackendProperties =
  bp_num_qubits :: nat
  bp_t1 :: "int \<Rightarrow> py_error + pyfloat"
  bp_t2 :: "int \<Rightarrow> py_error + pyfloat"
  bp_readout_error :: "int \<Rightarrow> py_error + pyfloat"
  bp_readout_length :: "int \<Rightarrow> py_error + pyfloat"
  bp_gates :: "Gate list"
  bp_gate_error :: "string \<Rightarrow> int list \<Rightarrow> py_error + pyfloat"
  bp_gate_length :: "string \<Rightarrow> int list \<Rightarrow> py_error + pyfloat"

text \<open>\<open>{qubit: {} for qubit in range(num_qubits)}\<close> and the like: every key gets an
  empty dictionary.\<close>

definition empty_tables :: "'k list \<Rightarrow> ('k \<rightharpoonup> (string \<rightharpoonup> pyfloat))" where
  "empty_tables ks = map_of (map (\<lambda>k. (k, Map.empty)) ks)"

definition backend_properties_qubit_body ::
  "BackendProperties \<Rightarrow> DeviceCalibration \<Rightarrow> int \<Rightarrow> py_error + DeviceCalibration" where
  "backend_properties_qubit_body bp cal q =
     (case bp_t1 bp q of
        Inl ex \<Rightarrow> Inl ex
      | Inr v1 \<Rightarrow>
     (case bp_t2 bp q of
        Inl ex \<Rightarrow> Inl ex
      | Inr v2 \<Rightarrow>
     (case bp_readout_error bp q of
        Inl ex \<Rightarrow> Inl ex
      | Inr re \<Rightarrow>
     (case bp_readout_length bp q of
        Inl ex \<Rightarrow> Inl ex
      | Inr rl \<Rightarrow>
          Inr (cal\<lparr> readout_fidelity := (readout_fidelity cal)(q \<mapsto> fsub 1 re),
                    readout_duration := (readout_duration cal)(q \<mapsto> rl),
                    t1 := (t1 cal)(q \<mapsto> v1),
                    t2 := (t2 cal)(q \<mapsto> v2) \<rparr>)))))"

text \<open>The body of the loop over \<open>backend_properties.gates\<close> (\<open>ibm.py\<close>, lines 84 to
  102): only a gate named \<open>reset\<close> is skipped.\<close>

definition backend_properties_gate_body ::
  "BackendProperties \<Rightarrow> DeviceCalibration \<Rightarrow> Gate \<Rightarrow> py_error + DeviceCalibration" where
  "backend_properties_gate_body bp cal g =
     (if gate g = ''reset'' then Inr cal
      else
        case bp_gate_error bp (gate g) (qubits g) of
          Inl ex \<Rightarrow> Inl ex
        | Inr err \<Rightarrow>
        (case bp_gate_length bp (gate g) (qubits g) of
          Inl ex \<Rightarrow> Inl ex
        | Inr dur \<Rightarrow>
            if length (qubits g) = 1 then
              (let qb = qubits g ! 0 in
               case single_qubit_gate_fidelity cal qb of
                 None \<Rightarrow> Inl KeyError
               | Some fm \<Rightarrow>
                   (case single_qubit_gate_duration cal qb of
                      None \<Rightarrow> Inl KeyError
                    | Some dm \<Rightarrow>
                        Inr (cal\<lparr> single_qubit_gate_fidelity := (single_qubit_gate_fidelity cal)
                                     (qb \<mapsto> fm(gate g \<mapsto> fsub 1 err)),
                                  single_qubit_gate_duration := (single_qubit_gate_duration cal)
                                     (qb \<mapsto> dm(gate g \<mapsto> dur)) \<rparr>)))
            else if length (qubits g) = 2 then
              (let qubit1 = qubits g ! 0; qubit2 = qubits g ! 1;
                   fm = (case two_qubit_gate_fidelity cal (qubit1, qubit2) of
                           None \<Rightarrow> Map.empty | Some m \<Rightarrow> m);
                   dm = (case two_qubit_gate_duration cal (qubit1, qubit2) of
                           None \<Rightarrow> Map.empty | Some m \<Rightarrow> m)
               in Inr (cal\<lparr> two_qubit_gate_fidelity := (two_qubit_gate_fidelity cal)
                              ((qubit1, qubit2) \<mapsto> fm(gate g \<mapsto> fsub 1 err)),
                            two_qubit_gate_duration := (two_qubit_gate_duration cal)
                              ((qubit1, qubit2) \<mapsto> dm(gate g \<mapsto> dur)) \<rparr>))
            else Inr cal))"

definition import_backend_properties :: "BackendProperties \<Rightarrow> py_error + DeviceCalibration" where
  "import_backend_properties bp =
     (let qs = py_range (int (bp_num_qubits bp)) in
      case for_each (backend_properties_qubit_body bp) qs DeviceCalibration_init of
        Inl ex \<Rightarrow> Inl ex
      | Inr cal1 \<Rightarrow>
          for_each (backend_properties_gate_body bp) (bp_gates bp)
            (cal1\<lparr> single_qubit_gate_fidelity := empty_tables qs,
                   single_qubit_gate_duration := empty_tables qs \<rparr>))"

text \<open>
  Of a \<open>Target\<close> the importer reads the list \<open>qubit_properties\<close> (here the pairs of
  \<open>t1\<close> and \<open>t2\<close>), the edges of \<open>build_coupling_map()\<close>, the list \<open>instructions\<close> of
  pairs of an instruction name and its \<open>qargs\<close>, and \<open>target[name][qargs]\<close> with its
  fields \<open>error\<close> and \<open>duration\<close> (the lookup may raise).
\<close>

record InstructionProperties =
  error :: pyfloat
  duration :: pyfloat

record Target =
  qubit_properties :: "(pyfloat \<times> pyfloat) list"
  coupling_map_edges :: "(int \<times> int) list"
  instructions :: "(string \<times> int list) list"
  instruction_props :: "string \<Rightarrow> int list \<Rightarrow> py_error + InstructionProperties"

definition target_qubit_body ::
  "Target \<Rightarrow> DeviceCalibration \<Rightarrow> int \<Rightarrow> py_error + DeviceCalibration" where
  "target_qubit_body tg cal q =
     (if 0 \<le> q \<and> nat q < length (qubit_properties tg)
      then Inr (cal\<lparr> t1 := (t1 cal)(q \<mapsto> fst (qubit_properties tg ! nat q)),
                     t2 := (t2 cal)(q \<mapsto> snd (qubit_properties tg ! nat q)) \<rparr>)
      else Inl IndexError)"

text \<open>The body of the loop over \<open>target.instructions\<close> (\<open>ibm.py\<close>, lines 122 to 139):
  instructions named \<open>reset\<close> or \<open>delay\<close> are skipped.\<close>

definition target_instruction_body ::
  "Target \<Rightarrow> DeviceCalibration \<Rightarrow> string \<times> int list \<Rightarrow> py_error + DeviceCalibration" where
  "target_instruction_body tg cal ins =
     (case ins of (iname, qargs) \<Rightarrow>
        if iname \<in> set [''reset'', ''delay''] then Inr cal
        else
          case instruction_props tg iname qargs of
            Inl ex \<Rightarrow> Inl ex
          | Inr ip \<Rightarrow>
              (case qargs of
                 [] \<Rightarrow> Inl IndexError
               | qb # _ \<Rightarrow>
                   if iname = ''measure'' then
                     Inr (cal\<lparr> readout_fidelity := (readout_fidelity cal)(qb \<mapsto> fsub 1 (error ip)),
                               readout_duration := (readout_duration cal)(qb \<mapsto> duration ip) \<rparr>)
                   else if length qargs = 1 then
                     (case single_qubit_gate_fidelity cal qb of
                        None \<Rightarrow> Inl KeyError
                      | Some fm \<Rightarrow>
                          (case single_qubit_gate_duration cal qb of
                             None \<Rightarrow> Inl KeyError
                           | Some dm \<Rightarrow>
                               Inr (cal\<lparr> single_qubit_gate_fidelity :=
                                            (single_qubit_gate_fidelity cal)
                                              (qb \<mapsto> fm(iname \<mapsto> fsub 1 (error ip))),
                                         single_qubit_gate_duration :=
                                            (single_qubit_gate_duration cal)
                                              (qb \<mapsto> dm(iname \<mapsto> duration ip)) \<rparr>)))
                   else if length qargs = 2 then
                     (let qubit1 = qargs ! 0; qubit2 = qargs ! 1 in
                      case two_qubit_gate_fidelity cal (qubit1, qubit2) of
                        None \<Rightarrow> Inl KeyError
                      | Some fm \<Rightarrow>
                          (case two_qubit_gate_duration cal (qubit1, qubit2) of
                             None \<Rightarrow> Inl KeyError
                           | Some dm \<Rightarrow>
                               Inr (cal\<lparr> two_qubit_gate_fidelity :=
                                            (two_qubit_gate_fidelity cal)
                                              ((qubit1, qubit2) \<mapsto> fm(iname \<mapsto> fsub 1 (error ip))),
                                         two_qubit_gate_duration :=
                                            (two_qubit_gate_duration cal)
                                              ((qubit1, qubit2) \<mapsto> dm(iname \<mapsto> duration ip)) \<rparr>)))
                   else Inr cal))"

definition import_target :: "Target \<Rightarrow> py_error + DeviceCalibration" where
  "import_target tg =
     (let qs = py_range (int (length (qubit_properties tg))) in
      case for_each (target_qubit_body tg) qs DeviceCalibration_init of
        Inl ex \<Rightarrow> Inl ex
      | Inr cal1 \<Rightarrow>
          for_each (target_instruction_body tg) (instructions tg)
            (cal1\<lparr> single_qubit_gate_fidelity := empty_tables qs,
                   single_qubit_gate_duration := empty_tables qs,
                   two_qubit_gate_fidelity := empty_tables (coupling_map_edges tg),
                   two_qubit_gate_duration := empty_tables (coupling_map_edges tg) \<rparr>))"

section \<open>The provider contract\<close>

text \<open>
  A concrete provider supplies the abstract class methods of \<open>Provider\<close>.
  \<open>sanitize_device\<close> is a method of \<open>Device\<close>, which is not part of the sources: it is the
  parameter \<open>sanitize\<close>, from the device to the rewritten device (or an exception).
\<close>

record Provider =
  get_available_device_names :: "string list"
  get_native_gates :: "string list"
  import_backend :: "string \<Rightarrow> py_error + Device"

definition get_device ::
  "Provider \<Rightarrow> (Device \<Rightarrow> py_error + Device) \<Rightarrow> string \<Rightarrow> bool \<Rightarrow> py_error + Device" where
  "get_device cls sanitize nm sanitize_device =
     (if nm \<notin> set (get_available_device_names cls)
      then Inl (ValueError (''Device '' @ nm @ '' not found.''))
      else
        case import_backend cls nm of
          Inl ex \<Rightarrow> Inl ex
        | Inr device \<Rightarrow> if sanitize_device then sanitize device else Inr device)"

text \<open>A list comprehension whose element expression may raise.\<close>

fun map_raise :: "('a \<Rightarrow> py_error + 'b) \<Rightarrow> 'a list \<Rightarrow> py_error + 'b list" where
  "map_raise f [] = Inr []"
| "map_raise f (x # xs) =
     (case f x of
        Inl ex \<Rightarrow> Inl ex
      | Inr y \<Rightarrow> (case map_raise f xs of Inl ex \<Rightarrow> Inl ex | Inr ys \<Rightarrow> Inr (y # ys)))"

definition get_available_devices ::
  "Provider \<Rightarrow> (Device \<Rightarrow> py_error + Device) \<Rightarrow> bool \<Rightarrow> py_error + Device list" where
  "get_available_devices cls sanitize sanitize_device =
     map_raise (\<lambda>nm. get_device cls sanitize nm sanitize_device) (get_available_device_names cls)"

text \<open>
  \<open>get_available_basis_gates\<close> collects the tuples of basis gates in a set and returns
  the elements of the set as lists.  The iteration order of a Python set is not
  specified; \<open>remdups\<close> is one enumeration of the set, and the properties below speak
  about the elements and their multiplicity only.
\<close>

definition get_available_basis_gates ::
  "Provider \<Rightarrow> (Device \<Rightarrow> py_error + Device) \<Rightarrow> py_error + string list list" where
  "get_available_basis_gates cls sanitize =
     (case get_available_devices cls sanitize False of
        Inl ex \<Rightarrow> Inl ex
      | Inr devices \<Rightarrow> Inr (remdups (map basis_gates devices)))"

text \<open>\<open>OQCProvider\<close> (\<open>oqc.py\<close>), over the resources of the package.\<close>

definition OQCProvider :: "(string \<rightharpoonup> OQCCalibration) \<Rightarrow> Provider" where
  "OQCProvider files =
     \<lparr> get_available_device_names = [''oqc_lucy''],
       get_native_gates = [''rz'', ''sx'', ''x'', ''ecr'', ''measure'', ''barrier''],
       import_backend = OQCProvider_import_backend files \<rparr>"

section \<open>Properties of calibration records\<close>

text \<open>\<open>table[k][g]\<close> for a table of per-gate dictionaries; \<open>None\<close> when a key is absent.\<close>

definition lookup2 :: "('k \<rightharpoonup> (string \<rightharpoonup> pyfloat)) \<Rightarrow> 'k \<Rightarrow> string \<Rightarrow> pyfloat option" where
  "lookup2 table k g = (case table k of None \<Rightarrow> None | Some m \<Rightarrow> m g)"

text \<open>Every qubit key of the per-qubit tables is in \<open>range(num_qubits)\<close>, and every key
  of the two-qubit tables is an entry of the coupling map.\<close>

definition calibration_keys_ok :: "Device \<Rightarrow> bool" where
  "calibration_keys_ok d \<longleftrightarrow>
     dom (t1 (calibration d)) \<union> dom (t2 (calibration d)) \<union>
     dom (readout_fidelity (calibration d)) \<union> dom (readout_duration (calibration d))
       \<subseteq> set (py_range (num_qubits d)) \<and>
     (\<forall>(a, b) \<in> dom (two_qubit_gate_fidelity (calibration d)) \<union>
                 dom (two_qubit_gate_duration (calibration d)).
        [a, b] \<in> set (coupling_map d))"

text \<open>No table of per-gate dictionaries has an entry under the gate name \<open>g\<close>.\<close>

definition gate_absent :: "DeviceCalibration \<Rightarrow> string \<Rightarrow> bool" where
  "gate_absent cal g \<longleftrightarrow>
     (\<forall>q. lookup2 (single_qubit_gate_fidelity cal) q g = None) \<and>
     (\<forall>q. lookup2 (single_qubit_gate_duration cal) q g = None) \<and>
     (\<forall>e. lookup2 (two_qubit_gate_fidelity cal) e g = None) \<and>
     (\<forall>e. lookup2 (two_qubit_gate_duration cal) e g = None)"

section \<open>Example inputs\<close>

text \<open>A two-qubit IBM file with the values \<open>T1=50, T2=70, eRO=0.02, tRO=1000, eID=0.001,
  eSX=0.001, eX=0.002, eCX={"0_1": 0.01}, tCX={"0_1": 300}\<close> and connectivity \<open>[[0, 1]]\<close>;
  qubit \<open>0\<close> has \<open>T1=100\<close>.  A decimal number of the file is the nearest float.\<close>

definition example_qubit_ibm :: QubitPropertiesIBM where
  "example_qubit_ibm =
     \<lparr> T1 = 50, T2 = 70, eRO = fl_round (2 / 100), tRO = 1000, eID = fl_round (1 / 1000),
       eSX = fl_round (1 / 1000), eX = fl_round (2 / 1000),
       eCX = [''0_1'' \<mapsto> fl_round (1 / 100)], tCX = [''0_1'' \<mapsto> 300] \<rparr>"

definition example_ibm :: IBMCalibration where
  "example_ibm =
     \<lparr> json_name = ''ibm_example'',
       json_basis_gates = [''id'', ''rz'', ''sx'', ''x'', ''cx'', ''measure''],
       json_num_qubits = 2, json_connectivity = [[0, 1]],
       json_properties = [''0'' \<mapsto> example_qubit_ibm\<lparr>T1 := 100\<rparr>, ''1'' \<mapsto> example_qubit_ibm] \<rparr>"

text \<open>A two-qubit open-access file with \<open>eECR={"0_1": 0.01}\<close> and \<open>tECR={"0_1": 660}\<close>.\<close>

definition example_qubit_open_access :: QubitPropertiesOpenAccess where
  "example_qubit_open_access =
     \<lparr> T1 = 50, T2 = 70, eRO = fl_round (2 / 100), tRO = 1000, eID = fl_round (1 / 1000),
       eSX = fl_round (1 / 1000), eX = fl_round (2 / 1000),
       eECR = [''0_1'' \<mapsto> fl_round (1 / 100)], tECR = [''0_1'' \<mapsto> 660] \<rparr>"

definition example_open_access :: IBMOpenAccessCalibration where
  "example_open_access =
     \<lparr> json_name = ''ibm_open_example'',
       json_basis_gates = [''id'', ''rz'', ''sx'', ''x'', ''ecr'', ''measure''],
       json_num_qubits = 2, json_connectivity = [[0, 1]],
       json_properties = [''0'' \<mapsto> example_qubit_open_access, ''1'' \<mapsto> example_qubit_open_access] \<rparr>"

text \<open>A two-qubit OQC file, and package resources that hold it for two device names.\<close>

definition example_qubit_oqc :: QubitProperties where
  "example_qubit_oqc =
     \<lparr> T1 = 40, T2 = 30, fRB = fl_round (999 / 1000), fRO = fl_round (9 / 10), qubit = 0 \<rparr>"

definition example_oqc :: OQCCalibration where
  "example_oqc =
     \<lparr> json_name = ''oqc_lucy'',
       json_basis_gates = [''rz'', ''sx'', ''x'', ''ecr'', ''measure''],
       json_num_qubits = 2, json_connectivity = [[0, 1]],
       json_properties =
         \<lparr> one_qubit = [''0'' \<mapsto> example_qubit_oqc, ''1'' \<mapsto> example_qubit_oqc],
           two_qubit = [''0-1'' \<mapsto> \<lparr> coupling = \<lparr> control_qubit = 0, target_qubit = 1 \<rparr>,
                                    fECR = fl_round (95 / 100) \<rparr>] \<rparr> \<rparr>"

definition example_files :: "string \<rightharpoonup> OQCCalibration" where
  "example_files =
     [''oqc_lucy_calibration.json'' \<mapsto> example_oqc,
      ''oqc_toshiko_calibration.json'' \<mapsto> example_oqc\<lparr>json_name := ''oqc_toshiko''\<rparr>]"

text \<open>A provider with two devices that have the same basis gates.\<close>

definition example_provider :: Provider where
  "example_provider =
     \<lparr> get_available_device_names = [''oqc_lucy'', ''oqc_toshiko''],
       get_native_gates = [''rz'', ''sx'', ''x'', ''ecr'', ''measure'', ''barrier''],
       import_backend = OQCProvider_import_backend example_files \<rparr>"

text \<open>A one-qubit \<open>BackendProperties\<close> object and a two-qubit \<open>Target\<close> whose operations
  include \<open>reset\<close> and \<open>delay\<close>.\<close>

definition example_backend_properties :: BackendProperties where
  "example_backend_properties =
     \<lparr> bp_num_qubits = 1,
       bp_t1 = (\<lambda>q. Inr 1), bp_t2 = (\<lambda>q. Inr 1),
       bp_readout_error = (\<lambda>q. Inr 0), bp_readout_length = (\<lambda>q. Inr 0),
       bp_gates = [\<lparr> gate = ''reset'', qubits = [0] \<rparr>, \<lparr> gate = ''delay'', qubits = [0] \<rparr>,
                   \<lparr> gate = ''x'', qubits = [0] \<rparr>],
       bp_gate_error = (\<lambda>g qs. Inr 0), bp_gate_length = (\<lambda>g qs. Inr 0) \<rparr>"

definition example_target :: Target where
  "example_target =
     \<lparr> qubit_properties = [(1, 1), (1, 1)],
       coupling_map_edges = [(0, 1)],
       instructions = [(''reset'', [0]), (''delay'', [0]), (''x'', [0]), (''measure'', [0]),
                       (''cx'', [0, 1])],
       instruction_props = (\<lambda>g qs. Inr \<lparr> error = 0, duration = 0 \<rparr>) \<rparr>"

section \<open>Evaluating the rounding function\<close>

lemma log2_ge1_eq: "2 ^ n \<le> x \<Longrightarrow> x < 2 ^ Suc n \<Longrightarrow> log2_ge1 x = int n"
proof (induction n arbitrary: x)
  case 0
  then show ?case by (simp add: log2_ge1.simps [of x])
next
  case (Suc n)
  from Suc.prems have big: "\<not> x < 2"
  proof -
    have "(2::rat) \<le> 2 ^ Suc n" by (simp add: self_le_power)
    then show ?thesis using Suc.prems(1) by linarith
  qed
  have "2 ^ n \<le> x / 2" "x / 2 < 2 ^ Suc n" using Suc.prems by simp_all
  then have "log2_ge1 (x / 2) = int n" by (rule Suc.IH)
  then show ?case using big by (simp add: log2_ge1.simps [of x])
qed

lemma log2_lt1_eq:
  "1 \<le> x * 2 ^ Suc n \<Longrightarrow> x * 2 ^ Suc n < 2 \<Longrightarrow> log2_lt1 x = - int (Suc n)"
proof (induction n arbitrary: x)
  case 0
  then have x: "0 < x" "x < 1" "1 \<le> 2 * x" by simp_all
  then have "log2_lt1 (2 * x) = 0" by (simp add: log2_lt1.simps [of "2 * x"])
  then show ?case using x by (simp add: log2_lt1.simps [of x])
next
  case (Suc n)
  have pos: "(0::rat) < 2 ^ Suc (Suc n)" by simp
  have x0: "0 < x"
  proof (rule ccontr)
    assume "\<not> 0 < x"
    then have "x * 2 ^ Suc (Suc n) \<le> 0" using pos by (simp add: mult_le_0_iff)
    then show False using Suc.prems(1) by linarith
  qed
  have "(4::rat) \<le> 2 ^ Suc (Suc n)"
  proof -
    have "(2::rat) ^ 2 \<le> 2 ^ Suc (Suc n)" by (rule power_increasing) simp_all
    then show ?thesis by simp
  qed
  then have "x * 4 \<le> x * 2 ^ Suc (Suc n)" using x0 by simp
  then have x1: "x < 1 / 2" using Suc.prems(2) by simp
  have "1 \<le> (2 * x) * 2 ^ Suc n" "(2 * x) * 2 ^ Suc n < 2"
    using Suc.prems by (simp_all add: mult.assoc mult.left_commute)
  then have "log2_lt1 (2 * x) = - int (Suc n)" by (rule Suc.IH)
  then show ?case using x0 x1 by (simp add: log2_lt1.simps [of x])
qed

lemma round_half_even_eq:
  assumes "of_int m - 1 / 2 < y" and "y < of_int m + 1 / 2"
  shows "round_half_even y = m"
proof -
  have "\<lfloor>y\<rfloor> = m \<or> \<lfloor>y\<rfloor> = m - 1" using assms by linarith
  then show ?thesis
  proof
    assume f: "\<lfloor>y\<rfloor> = m"
    then have "y - of_int m < 1 / 2" using assms by linarith
    then show ?thesis by (simp add: round_half_even_def f Let_def)
  next
    assume f: "\<lfloor>y\<rfloor> = m - 1"
    then have "1 / 2 < y - of_int (m - 1)" using assms by simp
    then show ?thesis using f by (simp add: round_half_even_def Let_def)
  qed
qed

lemma fl_round_small:
  assumes "1 \<le> x * 2 ^ Suc n" and "x * 2 ^ Suc n < 2" and "Suc n \<le> 1022"
    and "of_int m - 1 / 2 < x * 2 ^ (n + 53)" and "x * 2 ^ (n + 53) < of_int m + 1 / 2"
  shows "fl_round x = of_int m / 2 ^ (n + 53)"
proof -
  have pos: "(0::rat) < 2 ^ Suc n" by simp
  have x0: "0 < x"
  proof (rule ccontr)
    assume "\<not> 0 < x"
    then have "x * 2 ^ Suc n \<le> 0" using pos by (simp add: mult_le_0_iff)
    then show False using assms(1) by linarith
  qed
  have "(2::rat) \<le> 2 ^ Suc n" by (simp add: self_le_power)
  then have "x * 2 \<le> x * 2 ^ Suc n" using x0 by simp
  then have x1: "x < 1" using assms(2) by simp
  have lg: "log2_lt1 x = - int (Suc n)" using assms(1,2) by (rule log2_lt1_eq)
  have e: "max (log2_lt1 x) (- 1022) = - int (Suc n)" using lg assms(3) by simp
  have q: "pow2 (- 53 - int n) = 1 / 2 ^ (n + 53)"
  proof -
    have "nat (- (- 53 - int n)) = n + 53" by simp
    moreover have "\<not> 0 \<le> - 53 - int n" by simp
    ultimately show ?thesis unfolding pow2_def by simp
  qed
  have r: "round_half_even (x * 2 ^ (n + 53)) = m"
    using assms(4,5) by (rule round_half_even_eq)
  show ?thesis
    using x0 x1 e by (simp add: fl_round_def Let_def q r)
qed

lemma lit_1e_6_value: "lit_1e_6 = 4722366482869645 / 4722366482869645213696"
  unfolding lit_1e_6_def
  by (subst fl_round_small [where n = 19 and m = 4722366482869645]) simp_all

lemma lit_1e_9_value: "lit_1e_9 = 4835703278458517 / 4835703278458516698824704"
  unfolding lit_1e_9_def
  by (subst fl_round_small [where n = 29 and m = 4835703278458517]) simp_all

lemma float_100_us: "fmul 100 lit_1e_6 = 1844674407370955 / 18446744073709551616"
  unfolding fmul_def lit_1e_6_value
  by (subst fl_round_small [where n = 13 and m = 7378697629483820]) simp_all

lemma float_100e_6: "fl_round (100 / 1000000) = 7378697629483821 / 73786976294838206464"
  by (subst fl_round_small [where n = 13 and m = 7378697629483821]) simp_all

lemma float_300_ns: "fmul 300 lit_1e_9 = 5666839779443575 / 18889465931478580854784"
  unfolding fmul_def lit_1e_9_value
  by (subst fl_round_small [where n = 21 and m = 5666839779443575]) simp_all

lemma float_300e_9: "fl_round (300 / 1000000000) = 2833419889721787 / 9444732965739290427392"
  by (subst fl_round_small [where n = 21 and m = 5666839779443574]) simp_all

lemma float_0_01: "fl_round (1 / 100) = 5764607523034235 / 576460752303423488"
  by (subst fl_round_small [where n = 6 and m = 5764607523034235]) simp_all

lemma float_1_minus_0_01: "fsub 1 (fl_round (1 / 100)) = 4458563631096791 / 4503599627370496"
  unfolding fsub_def float_0_01
  by (subst fl_round_small [where n = 0 and m = 8917127262193582]) simp_all

lemma float_0_99: "fl_round (99 / 100) = 4458563631096791 / 4503599627370496"
  by (subst fl_round_small [where n = 0 and m = 8917127262193582]) simp_all

lemma float_0_01_ns: "fmul (fl_round (1 / 100)) lit_1e_9 = 3094850098213451 / 309485009821345068724781056"
  unfolding fmul_def float_0_01 lit_1e_9_value
  by (subst fl_round_small [where n = 36 and m = 6189700196426902]) simp_all

lemma float_660_ns: "fmul 660 lit_1e_9 = 1558380939346983 / 2361183241434822606848"
  unfolding fmul_def lit_1e_9_value
  by (subst fl_round_small [where n = 20 and m = 6233523757387932]) simp_all

section \<open>The loops of the file-based importers\<close>

lemma for_each_append:
  "for_each body (xs @ ys) s =
     (case for_each body xs s of Inl e \<Rightarrow> Inl e | Inr s' \<Rightarrow> for_each body ys s')"
  by (induction xs arbitrary: s) (auto split: sum.splits)

lemma file_qubit_body_Inr:
  "file_qubit_body props cal q = Inr cal' \<longleftrightarrow>
     (\<exists>p. props (str q) = Some p \<and>
        cal' = cal\<lparr> single_qubit_gate_fidelity := (single_qubit_gate_fidelity cal)
                       (q \<mapsto> [''id'' \<mapsto> fsub 1 (eID p), ''rz'' \<mapsto> 1,
                              ''sx'' \<mapsto> fsub 1 (eSX p), ''x'' \<mapsto> fsub 1 (eX p)]),
                    readout_fidelity := (readout_fidelity cal)(q \<mapsto> fsub 1 (eRO p)),
                    readout_duration := (readout_duration cal)(q \<mapsto> fmul (tRO p) lit_1e_9),
                    t1 := (t1 cal)(q \<mapsto> fmul (T1 p) lit_1e_6),
                    t2 := (t2 cal)(q \<mapsto> fmul (T2 p) lit_1e_6) \<rparr>)"
  by (auto simp: file_qubit_body_def split: option.splits)

lemma qubit_loop_frame:
  assumes "for_each (file_qubit_body props) qs cal = Inr cal'"
  shows "single_qubit_gate_duration cal' = single_qubit_gate_duration cal"
    and "two_qubit_gate_fidelity cal' = two_qubit_gate_fidelity cal"
    and "two_qubit_gate_duration cal' = two_qubit_gate_duration cal"
    and "q \<notin> set qs \<Longrightarrow> single_qubit_gate_fidelity cal' q = single_qubit_gate_fidelity cal q"
    and "q \<notin> set qs \<Longrightarrow> readout_fidelity cal' q = readout_fidelity cal q"
    and "q \<notin> set qs \<Longrightarrow> readout_duration cal' q = readout_duration cal q"
    and "q \<notin> set qs \<Longrightarrow> t1 cal' q = t1 cal q"
    and "q \<notin> set qs \<Longrightarrow> t2 cal' q = t2 cal q"
  using assms
  by (induction qs arbitrary: cal; fastforce simp: file_qubit_body_Inr split: sum.splits)+

lemma qubit_loop_entry:
  assumes "for_each (file_qubit_body props) qs cal = Inr cal'" and "q \<in> set qs"
  shows "\<exists>p. props (str q) = Some p \<and>
           single_qubit_gate_fidelity cal' q =
             Some [''id'' \<mapsto> fsub 1 (eID p), ''rz'' \<mapsto> 1,
                   ''sx'' \<mapsto> fsub 1 (eSX p), ''x'' \<mapsto> fsub 1 (eX p)] \<and>
           readout_fidelity cal' q = Some (fsub 1 (eRO p)) \<and>
           readout_duration cal' q = Some (fmul (tRO p) lit_1e_9) \<and>
           t1 cal' q = Some (fmul (T1 p) lit_1e_6) \<and>
           t2 cal' q = Some (fmul (T2 p) lit_1e_6)"
  using assms
proof (induction qs arbitrary: cal)
  case Nil
  then show ?case by simp
next
  case (Cons x xs)
  from Cons.prems(1) obtain cal1 where
    step: "file_qubit_body props cal x = Inr cal1" and
    rest: "for_each (file_qubit_body props) xs cal1 = Inr cal'"
    by (auto split: sum.splits)
  show ?case
  proof (cases "q \<in> set xs")
    case True
    then show ?thesis using Cons.IH [OF rest] by simp
  next
    case False
    with Cons.prems(2) have qx: "q = x" by simp
    from step obtain p where p: "props (str x) = Some p" and
      c1: "cal1 = cal\<lparr> single_qubit_gate_fidelity := (single_qubit_gate_fidelity cal)
                       (x \<mapsto> [''id'' \<mapsto> fsub 1 (eID p), ''rz'' \<mapsto> 1,
                              ''sx'' \<mapsto> fsub 1 (eSX p), ''x'' \<mapsto> fsub 1 (eX p)]),
                    readout_fidelity := (readout_fidelity cal)(x \<mapsto> fsub 1 (eRO p)),
                    readout_duration := (readout_duration cal)(x \<mapsto> fmul (tRO p) lit_1e_9),
                    t1 := (t1 cal)(x \<mapsto> fmul (T1 p) lit_1e_6),
                    t2 := (t2 cal)(x \<mapsto> fmul (T2 p) lit_1e_6) \<rparr>"
      unfolding file_qubit_body_Inr by blast
    show ?thesis
      using qubit_loop_frame(4-8) [OF rest False] p qx unfolding c1 by (auto simp: fun_eq_iff)
  qed
qed

lemma qubit_loop_total:
  "\<forall>q\<in>set qs. props (str q) \<noteq> None \<Longrightarrow> \<exists>cal'. for_each (file_qubit_body props) qs cal = Inr cal'"
  by (induction qs arbitrary: cal) (auto simp: file_qubit_body_def split: option.splits)

lemma qubit_loop_dom:
  assumes "for_each (file_qubit_body props) qs cal = Inr cal'"
  shows "dom (t1 cal') = dom (t1 cal) \<union> set qs"
    and "dom (t2 cal') = dom (t2 cal) \<union> set qs"
    and "dom (readout_fidelity cal') = dom (readout_fidelity cal) \<union> set qs"
    and "dom (readout_duration cal') = dom (readout_duration cal) \<union> set qs"
    and "dom (single_qubit_gate_fidelity cal') = dom (single_qubit_gate_fidelity cal) \<union> set qs"
  using assms
  by (induction qs arbitrary: cal; fastforce simp: file_qubit_body_Inr split: sum.splits)+


lemma for_each_invariant:
  assumes "for_each body xs s = Inr s'" and "P s"
    and "\<And>s x s'. P s \<Longrightarrow> x \<in> set xs \<Longrightarrow> body s x = Inr s' \<Longrightarrow> P s'"
  shows "P s'"
  using assms
proof (induction xs arbitrary: s)
  case Nil
  then show ?case by simp
next
  case (Cons x xs)
  from Cons.prems(1) obtain s1 where
    step: "body s x = Inr s1" and rest: "for_each body xs s1 = Inr s'"
    by (auto split: sum.splits)
  have "P s1" by (rule Cons.prems(3) [OF Cons.prems(2) _ step]) simp
  then show ?case
    by (rule Cons.IH [OF rest]) (rule Cons.prems(3), simp_all)
qed

lemma unpack2_pair: "unpack2 [a, b] = Inr (a, b)"
  by (simp add: unpack2_def)

lemma unpack2_Inr: "unpack2 e = Inr (a, b) \<longleftrightarrow> e = [a, b]"
  by (auto simp: unpack2_def split: list.splits)

lemma file_edge_body_Inr:
  "file_edge_body gname ek dk props cal e = Inr cal' \<longleftrightarrow>
     (\<exists>a b p err d. e = [a, b] \<and> props (str a) = Some p \<and>
        ek p (str a @ ''_'' @ str b) = Some err \<and> dk p (str a @ ''_'' @ str b) = Some d \<and>
        cal' = cal\<lparr> two_qubit_gate_fidelity := (two_qubit_gate_fidelity cal)
                        ((a, b) \<mapsto> [gname \<mapsto> fsub 1 err]),
                     two_qubit_gate_duration := (two_qubit_gate_duration cal)
                        ((a, b) \<mapsto> [gname \<mapsto> fmul d lit_1e_9]) \<rparr>)"
proof (cases "unpack2 e")
  case (Inl ex)
  then have "\<And>a b. e \<noteq> [a, b]" by (auto simp: unpack2_pair)
  then show ?thesis using Inl by (simp add: file_edge_body_def)
next
  case (Inr ab)
  obtain a b where ab: "ab = (a, b)" by (cases ab)
  then have e: "e = [a, b]" using Inr by (simp add: unpack2_Inr)
  show ?thesis
    unfolding e by (auto simp: file_edge_body_def unpack2_pair Let_def split: option.splits)
qed

lemma edge_loop_frame:
  assumes "for_each (file_edge_body gname ek dk props) es cal = Inr cal'"
  shows "single_qubit_gate_fidelity cal' = single_qubit_gate_fidelity cal"
    and "single_qubit_gate_duration cal' = single_qubit_gate_duration cal"
    and "readout_fidelity cal' = readout_fidelity cal"
    and "readout_duration cal' = readout_duration cal"
    and "t1 cal' = t1 cal"
    and "t2 cal' = t2 cal"
  using assms
  by (induction es arbitrary: cal; fastforce simp: file_edge_body_Inr split: sum.splits)+

lemma edge_loop_frame2:
  "for_each (file_edge_body gname ek dk props) es cal = Inr cal' \<Longrightarrow> [a, b] \<notin> set es \<Longrightarrow>
     two_qubit_gate_fidelity cal' (a, b) = two_qubit_gate_fidelity cal (a, b) \<and>
     two_qubit_gate_duration cal' (a, b) = two_qubit_gate_duration cal (a, b)"
proof (induction es arbitrary: cal)
  case Nil
  then show ?case by simp
next
  case (Cons x xs)
  from Cons.prems(1) obtain cal1 where
    step: "file_edge_body gname ek dk props cal x = Inr cal1" and
    rest: "for_each (file_edge_body gname ek dk props) xs cal1 = Inr cal'"
    by (auto split: sum.splits)
  from Cons.prems(2) have nx: "x \<noteq> [a, b]" and nin: "[a, b] \<notin> set xs" by auto
  from step obtain a' b' p err d where x: "x = [a', b']" and
    c1: "cal1 = cal\<lparr> two_qubit_gate_fidelity := (two_qubit_gate_fidelity cal)
                        ((a', b') \<mapsto> [gname \<mapsto> fsub 1 err]),
                     two_qubit_gate_duration := (two_qubit_gate_duration cal)
                        ((a', b') \<mapsto> [gname \<mapsto> fmul d lit_1e_9]) \<rparr>"
    unfolding file_edge_body_Inr by blast
  have ne: "(a, b) \<noteq> (a', b')" using nx x by auto
  have "two_qubit_gate_fidelity cal1 (a, b) = two_qubit_gate_fidelity cal (a, b) \<and>
        two_qubit_gate_duration cal1 (a, b) = two_qubit_gate_duration cal (a, b)"
    unfolding c1 using ne by auto
  then show ?case using Cons.IH [OF rest nin] by simp
qed

lemma edge_loop_entry:
  assumes "for_each (file_edge_body gname ek dk props) es cal = Inr cal'" and "e \<in> set es"
  shows "\<exists>a b p err d. e = [a, b] \<and> props (str a) = Some p \<and>
           ek p (str a @ ''_'' @ str b) = Some err \<and> dk p (str a @ ''_'' @ str b) = Some d \<and>
           two_qubit_gate_fidelity cal' (a, b) = Some [gname \<mapsto> fsub 1 err] \<and>
           two_qubit_gate_duration cal' (a, b) = Some [gname \<mapsto> fmul d lit_1e_9]"
  using assms
proof (induction es arbitrary: cal)
  case Nil
  then show ?case by simp
next
  case (Cons x xs)
  from Cons.prems(1) obtain cal1 where
    step: "file_edge_body gname ek dk props cal x = Inr cal1" and
    rest: "for_each (file_edge_body gname ek dk props) xs cal1 = Inr cal'"
    by (auto split: sum.splits)
  show ?case
  proof (cases "e \<in> set xs")
    case True
    then show ?thesis using Cons.IH [OF rest] by simp
  next
    case False
    with Cons.prems(2) have ex: "e = x" by simp
    from step obtain a b p err d where
      x: "x = [a, b]" and p: "props (str a) = Some p" and
      er: "ek p (str a @ ''_'' @ str b) = Some err" and
      du: "dk p (str a @ ''_'' @ str b) = Some d" and
      c1: "cal1 = cal\<lparr> two_qubit_gate_fidelity := (two_qubit_gate_fidelity cal)
                        ((a, b) \<mapsto> [gname \<mapsto> fsub 1 err]),
                     two_qubit_gate_duration := (two_qubit_gate_duration cal)
                        ((a, b) \<mapsto> [gname \<mapsto> fmul d lit_1e_9]) \<rparr>"
      unfolding file_edge_body_Inr by blast
    have nin: "[a, b] \<notin> set xs" using False ex x by simp
    have "two_qubit_gate_fidelity cal' (a, b) = Some [gname \<mapsto> fsub 1 err]"
      using edge_loop_frame2 [OF rest nin] by (simp add: c1)
    moreover have "two_qubit_gate_duration cal' (a, b) = Some [gname \<mapsto> fmul d lit_1e_9]"
      using edge_loop_frame2 [OF rest nin] by (simp add: c1)
    ultimately show ?thesis using ex x p er du by blast
  qed
qed

lemma edge_loop_dom:
  "for_each (file_edge_body gname ek dk props) es cal = Inr cal' \<Longrightarrow>
     dom (two_qubit_gate_fidelity cal') = dom (two_qubit_gate_fidelity cal) \<union> {(a, b). [a, b] \<in> set es} \<and>
     dom (two_qubit_gate_duration cal') = dom (two_qubit_gate_duration cal) \<union> {(a, b). [a, b] \<in> set es}"
proof (induction es arbitrary: cal)
  case Nil
  then show ?case by simp
next
  case (Cons x xs)
  from Cons.prems(1) obtain cal1 where
    step: "file_edge_body gname ek dk props cal x = Inr cal1" and
    rest: "for_each (file_edge_body gname ek dk props) xs cal1 = Inr cal'"
    by (auto split: sum.splits)
  from step obtain a b where x: "x = [a, b]" and
    "dom (two_qubit_gate_fidelity cal1) = insert (a, b) (dom (two_qubit_gate_fidelity cal))"
    "dom (two_qubit_gate_duration cal1) = insert (a, b) (dom (two_qubit_gate_duration cal))"
    unfolding file_edge_body_Inr by auto
  then show ?case using Cons.IH [OF rest] by auto
qed

lemma edge_loop_total:
  assumes "\<forall>e\<in>set es. case e of
          [q1, q2] \<Rightarrow>
            (case props (str q1) of
               None \<Rightarrow> False
             | Some p \<Rightarrow> ek p (str q1 @ ''_'' @ str q2) \<noteq> None
                         \<and> dk p (str q1 @ ''_'' @ str q2) \<noteq> None)
        | _ \<Rightarrow> False"
  shows "\<exists>cal'. for_each (file_edge_body gname ek dk props) es cal = Inr cal'"
  using assms
proof (induction es arbitrary: cal)
  case Nil
  then show ?case by simp
next
  case (Cons x xs)
  from Cons.prems obtain a b p err d where
    "x = [a, b]" "props (str a) = Some p" "ek p (str a @ ''_'' @ str b) = Some err"
    "dk p (str a @ ''_'' @ str b) = Some d"
    by (auto split: list.splits option.splits)
  then obtain cal1 where "file_edge_body gname ek dk props cal x = Inr cal1"
    unfolding file_edge_body_Inr by blast
  moreover obtain cal' where "for_each (file_edge_body gname ek dk props) xs cal1 = Inr cal'"
    using Cons.IH [of cal1] Cons.prems by auto
  ultimately show ?case by simp
qed

lemma file_import_backend_Inr:
  assumes "file_import_backend gname ek dk c = Inr d"
  shows "\<exists>cal1. for_each (file_qubit_body (json_properties c)) (py_range (json_num_qubits c))
                  DeviceCalibration_init = Inr cal1 \<and>
               for_each (file_edge_body gname ek dk (json_properties c)) (json_connectivity c) cal1
                 = Inr (calibration d)"
    and "name d = json_name c" and "num_qubits d = json_num_qubits c"
    and "basis_gates d = json_basis_gates c" and "coupling_map d = json_connectivity c"
  using assms by (auto simp: file_import_backend_def split: sum.splits)

lemma file_import_backend_total:
  assumes "well_formed_file ek dk c"
  shows "\<exists>d. file_import_backend gname ek dk c = Inr d"
proof -
  obtain cal1 where 1: "for_each (file_qubit_body (json_properties c))
      (py_range (json_num_qubits c)) DeviceCalibration_init = Inr cal1"
    using qubit_loop_total [of "py_range (json_num_qubits c)" "json_properties c"] assms
    unfolding well_formed_file_def by blast
  obtain cal2 where 2: "for_each (file_edge_body gname ek dk (json_properties c))
      (json_connectivity c) cal1 = Inr cal2"
    using edge_loop_total assms unfolding well_formed_file_def by blast
  show ?thesis by (simp add: file_import_backend_def 1 2)
qed

section \<open>The loops of the OQC importer\<close>

lemma oqc_qubit_body_Inr:
  "oqc_qubit_body props cal q = Inr cal' \<longleftrightarrow>
     (\<exists>p. one_qubit props (str q) = Some p \<and>
        cal' = cal\<lparr> single_qubit_gate_fidelity := (single_qubit_gate_fidelity cal)
                       (q \<mapsto> map_of (map (\<lambda>g. (g, fRB p)) [''rz'', ''sx'', ''x''])),
                    readout_fidelity := (readout_fidelity cal)(q \<mapsto> fRO p),
                    t1 := (t1 cal)(q \<mapsto> fmul (T1 p) lit_1e_6),
                    t2 := (t2 cal)(q \<mapsto> fmul (T2 p) lit_1e_6) \<rparr>)"
  by (auto simp: oqc_qubit_body_def split: option.splits)

lemma oqc_qubit_loop_frame:
  assumes "for_each (oqc_qubit_body props) qs cal = Inr cal'"
  shows "single_qubit_gate_duration cal' = single_qubit_gate_duration cal"
    and "two_qubit_gate_fidelity cal' = two_qubit_gate_fidelity cal"
    and "two_qubit_gate_duration cal' = two_qubit_gate_duration cal"
    and "readout_duration cal' = readout_duration cal"
  using assms
  by (induction qs arbitrary: cal; fastforce simp: oqc_qubit_body_Inr split: sum.splits)+

lemma oqc_qubit_loop_frame2:
  "for_each (oqc_qubit_body props) qs cal = Inr cal' \<Longrightarrow> q \<notin> set qs \<Longrightarrow>
     single_qubit_gate_fidelity cal' q = single_qubit_gate_fidelity cal q \<and>
     readout_fidelity cal' q = readout_fidelity cal q \<and>
     t1 cal' q = t1 cal q \<and> t2 cal' q = t2 cal q"
proof (induction qs arbitrary: cal)
  case Nil
  then show ?case by simp
next
  case (Cons x xs)
  from Cons.prems(1) obtain cal1 where
    step: "oqc_qubit_body props cal x = Inr cal1" and
    rest: "for_each (oqc_qubit_body props) xs cal1 = Inr cal'"
    by (auto split: sum.splits)
  from Cons.prems(2) have nx: "q \<noteq> x" and nin: "q \<notin> set xs" by auto
  have "single_qubit_gate_fidelity cal1 q = single_qubit_gate_fidelity cal q \<and>
     readout_fidelity cal1 q = readout_fidelity cal q \<and>
     t1 cal1 q = t1 cal q \<and> t2 cal1 q = t2 cal q"
    using step nx unfolding oqc_qubit_body_Inr by auto
  then show ?case using Cons.IH [OF rest nin] by simp
qed

lemma oqc_qubit_loop_entry:
  assumes "for_each (oqc_qubit_body props) qs cal = Inr cal'" and "q \<in> set qs"
  shows "\<exists>p. one_qubit props (str q) = Some p \<and>
           single_qubit_gate_fidelity cal' q =
             Some (map_of (map (\<lambda>g. (g, fRB p)) [''rz'', ''sx'', ''x''])) \<and>
           readout_fidelity cal' q = Some (fRO p) \<and>
           t1 cal' q = Some (fmul (T1 p) lit_1e_6) \<and>
           t2 cal' q = Some (fmul (T2 p) lit_1e_6)"
  using assms
proof (induction qs arbitrary: cal)
  case Nil
  then show ?case by simp
next
  case (Cons x xs)
  from Cons.prems(1) obtain cal1 where
    step: "oqc_qubit_body props cal x = Inr cal1" and
    rest: "for_each (oqc_qubit_body props) xs cal1 = Inr cal'"
    by (auto split: sum.splits)
  show ?case
  proof (cases "q \<in> set xs")
    case True
    then show ?thesis using Cons.IH [OF rest] by simp
  next
    case False
    with Cons.prems(2) have qx: "q = x" by simp
    from step obtain p where p: "one_qubit props (str x) = Some p" and
      c1: "cal1 = cal\<lparr> single_qubit_gate_fidelity := (single_qubit_gate_fidelity cal)
                       (x \<mapsto> map_of (map (\<lambda>g. (g, fRB p)) [''rz'', ''sx'', ''x''])),
                    readout_fidelity := (readout_fidelity cal)(x \<mapsto> fRO p),
                    t1 := (t1 cal)(x \<mapsto> fmul (T1 p) lit_1e_6),
                    t2 := (t2 cal)(x \<mapsto> fmul (T2 p) lit_1e_6) \<rparr>"
      unfolding oqc_qubit_body_Inr by blast
    have "single_qubit_gate_fidelity cal' q = single_qubit_gate_fidelity cal1 q"
      "readout_fidelity cal' q = readout_fidelity cal1 q"
      "t1 cal' q = t1 cal1 q" "t2 cal' q = t2 cal1 q"
      using oqc_qubit_loop_frame2 [OF rest False] by simp_all
    then show ?thesis using p qx unfolding c1 by (auto simp: fun_eq_iff)
  qed
qed

lemma oqc_qubit_loop_total:
  "\<forall>q\<in>set qs. one_qubit props (str q) \<noteq> None \<Longrightarrow>
     \<exists>cal'. for_each (oqc_qubit_body props) qs cal = Inr cal'"
  by (induction qs arbitrary: cal) (auto simp: oqc_qubit_body_def split: option.splits)

lemma oqc_qubit_loop_dom:
  "for_each (oqc_qubit_body props) qs cal = Inr cal' \<Longrightarrow>
     dom (t1 cal') = dom (t1 cal) \<union> set qs \<and>
     dom (t2 cal') = dom (t2 cal) \<union> set qs \<and>
     dom (readout_fidelity cal') = dom (readout_fidelity cal) \<union> set qs"
proof (induction qs arbitrary: cal)
  case Nil
  then show ?case by simp
next
  case (Cons x xs)
  from Cons.prems(1) obtain cal1 where
    step: "oqc_qubit_body props cal x = Inr cal1" and
    rest: "for_each (oqc_qubit_body props) xs cal1 = Inr cal'"
    by (auto split: sum.splits)
  from step have "dom (t1 cal1) = insert x (dom (t1 cal))"
    "dom (t2 cal1) = insert x (dom (t2 cal))"
    "dom (readout_fidelity cal1) = insert x (dom (readout_fidelity cal))"
    unfolding oqc_qubit_body_Inr by auto
  then show ?case using Cons.IH [OF rest] by auto
qed

lemma oqc_edge_body_Inr:
  "oqc_edge_body props cal e = Inr cal' \<longleftrightarrow>
     (\<exists>a b tp. e = [a, b] \<and> two_qubit props (str a @ ''-'' @ str b) = Some tp \<and>
        cal' = cal\<lparr> two_qubit_gate_fidelity := (two_qubit_gate_fidelity cal)
                        ((a, b) \<mapsto> map_of (map (\<lambda>g. (g, fECR tp)) [''ecr''])) \<rparr>)"
proof (cases "unpack2 e")
  case (Inl ex)
  then have "\<And>a b. e \<noteq> [a, b]" by (auto simp: unpack2_pair)
  then show ?thesis using Inl by (simp add: oqc_edge_body_def)
next
  case (Inr ab)
  obtain a b where ab: "ab = (a, b)" by (cases ab)
  then have e: "e = [a, b]" using Inr by (simp add: unpack2_Inr)
  show ?thesis
    unfolding e by (auto simp: oqc_edge_body_def unpack2_pair split: option.splits)
qed

lemma oqc_edge_loop_frame:
  assumes "for_each (oqc_edge_body props) es cal = Inr cal'"
  shows "single_qubit_gate_fidelity cal' = single_qubit_gate_fidelity cal"
    and "single_qubit_gate_duration cal' = single_qubit_gate_duration cal"
    and "two_qubit_gate_duration cal' = two_qubit_gate_duration cal"
    and "readout_fidelity cal' = readout_fidelity cal"
    and "readout_duration cal' = readout_duration cal"
    and "t1 cal' = t1 cal"
    and "t2 cal' = t2 cal"
  using assms
  by (induction es arbitrary: cal; fastforce simp: oqc_edge_body_Inr split: sum.splits)+

lemma oqc_edge_loop_dom:
  "for_each (oqc_edge_body props) es cal = Inr cal' \<Longrightarrow>
     dom (two_qubit_gate_fidelity cal') = dom (two_qubit_gate_fidelity cal) \<union> {(a, b). [a, b] \<in> set es}"
proof (induction es arbitrary: cal)
  case Nil
  then show ?case by simp
next
  case (Cons x xs)
  from Cons.prems(1) obtain cal1 where
    step: "oqc_edge_body props cal x = Inr cal1" and
    rest: "for_each (oqc_edge_body props) xs cal1 = Inr cal'"
    by (auto split: sum.splits)
  from step obtain a b where x: "x = [a, b]" and
    "dom (two_qubit_gate_fidelity cal1) = insert (a, b) (dom (two_qubit_gate_fidelity cal))"
    unfolding oqc_edge_body_Inr by auto
  then show ?case using Cons.IH [OF rest] by auto
qed

lemma oqc_edge_loop_total:
  assumes "\<forall>e\<in>set es. case e of
          [q1, q2] \<Rightarrow> two_qubit props (str q1 @ ''-'' @ str q2) \<noteq> None
        | _ \<Rightarrow> False"
  shows "\<exists>cal'. for_each (oqc_edge_body props) es cal = Inr cal'"
  using assms
proof (induction es arbitrary: cal)
  case Nil
  then show ?case by simp
next
  case (Cons x xs)
  from Cons.prems obtain a b tp where
    "x = [a, b]" "two_qubit props (str a @ ''-'' @ str b) = Some tp"
    by (auto split: list.splits option.splits)
  then obtain cal1 where "oqc_edge_body props cal x = Inr cal1"
    unfolding oqc_edge_body_Inr by blast
  moreover obtain cal' where "for_each (oqc_edge_body props) xs cal1 = Inr cal'"
    using Cons.IH [of cal1] Cons.prems by auto
  ultimately show ?case by simp
qed

lemma oqc_import_calibration_Inr:
  assumes "oqc_import_calibration c = Inr d"
  shows "\<exists>cal1. for_each (oqc_qubit_body (json_properties c)) (py_range (json_num_qubits c))
                  DeviceCalibration_init = Inr cal1 \<and>
               for_each (oqc_edge_body (json_properties c)) (json_connectivity c) cal1
                 = Inr (calibration d)"
    and "name d = json_name c" and "num_qubits d = json_num_qubits c"
    and "basis_gates d = json_basis_gates c" and "coupling_map d = json_connectivity c"
  using assms by (auto simp: oqc_import_calibration_def split: sum.splits)

lemma oqc_import_calibration_total:
  assumes "well_formed_oqc c"
  shows "\<exists>d. oqc_import_calibration c = Inr d"
proof -
  obtain cal1 where 1: "for_each (oqc_qubit_body (json_properties c))
      (py_range (json_num_qubits c)) DeviceCalibration_init = Inr cal1"
    using oqc_qubit_loop_total assms unfolding well_formed_oqc_def by blast
  obtain cal2 where 2: "for_each (oqc_edge_body (json_properties c))
      (json_connectivity c) cal1 = Inr cal2"
    using oqc_edge_loop_total assms unfolding well_formed_oqc_def by blast
  show ?thesis by (simp add: oqc_import_calibration_def 1 2)
qed

section \<open>The importers on well-formed files\<close>

lemma str_0: "str 0 = ''0''"
  by (simp add: str_def str_nat.simps digit_char_def)

lemma str_1: "str 1 = ''1''"
  by (simp add: str_def str_nat.simps digit_char_def)

lemma py_range_2: "py_range 2 = [0, 1]"
  by (simp add: py_range_def upt_rec)

lemma py_range_1: "py_range 1 = [0]"
  by (simp add: py_range_def)

lemma set_py_range: "set (py_range n) = {q. 0 \<le> q \<and> q < n}"
proof -
  have "q \<in> int ` {0..<nat n} \<longleftrightarrow> 0 \<le> q \<and> q < n" for q
  proof
    assume "q \<in> int ` {0..<nat n}"
    then show "0 \<le> q \<and> q < n" by auto
  next
    assume a: "0 \<le> q \<and> q < n"
    then have "nat q \<in> {0..<nat n}" by auto
    moreover have "q = int (nat q)" using a by simp
    ultimately show "q \<in> int ` {0..<nat n}" by (rule rev_image_eqI)
  qed
  then show ?thesis by (auto simp: py_range_def)
qed

lemma well_formed_example_ibm: "well_formed_ibm example_ibm"
  by (simp add: well_formed_ibm_def well_formed_file_def example_ibm_def example_qubit_ibm_def
      py_range_2 str_0 str_1)

lemma well_formed_example_open_access: "well_formed_open_access example_open_access"
  by (simp add: well_formed_open_access_def well_formed_file_def example_open_access_def
      example_qubit_open_access_def py_range_2 str_0 str_1)

lemma well_formed_example_oqc: "well_formed_oqc example_oqc"
  by (simp add: well_formed_oqc_def example_oqc_def py_range_2 str_0 str_1)

lemma file_import_entries:
  assumes "well_formed_file ek dk c"
  shows "\<exists>d. file_import_backend gname ek dk c = Inr d \<and>
     name d = json_name c \<and> num_qubits d = json_num_qubits c \<and>
     basis_gates d = json_basis_gates c \<and> coupling_map d = json_connectivity c \<and>
     single_qubit_gate_duration (calibration d) = Map.empty \<and>
     (\<forall>q\<in>set (py_range (json_num_qubits c)). \<exists>p. json_properties c (str q) = Some p \<and>
         single_qubit_gate_fidelity (calibration d) q =
             Some [''id'' \<mapsto> fsub 1 (eID p), ''rz'' \<mapsto> 1,
                   ''sx'' \<mapsto> fsub 1 (eSX p), ''x'' \<mapsto> fsub 1 (eX p)] \<and>
         readout_fidelity (calibration d) q = Some (fsub 1 (eRO p)) \<and>
         readout_duration (calibration d) q = Some (fmul (tRO p) lit_1e_9) \<and>
         t1 (calibration d) q = Some (fmul (T1 p) lit_1e_6) \<and>
         t2 (calibration d) q = Some (fmul (T2 p) lit_1e_6)) \<and>
     (\<forall>e\<in>set (json_connectivity c). \<exists>a b p err du. e = [a, b] \<and>
         json_properties c (str a) = Some p \<and>
         ek p (str a @ ''_'' @ str b) = Some err \<and> dk p (str a @ ''_'' @ str b) = Some du \<and>
         two_qubit_gate_fidelity (calibration d) (a, b) = Some [gname \<mapsto> fsub 1 err] \<and>
         two_qubit_gate_duration (calibration d) (a, b) = Some [gname \<mapsto> fmul du lit_1e_9])"
proof -
  obtain d where d: "file_import_backend gname ek dk c = Inr d"
    using file_import_backend_total [OF assms] by blast
  from file_import_backend_Inr(1) [OF d] obtain cal1 where
    l1: "for_each (file_qubit_body (json_properties c)) (py_range (json_num_qubits c))
           DeviceCalibration_init = Inr cal1" and
    l2: "for_each (file_edge_body gname ek dk (json_properties c)) (json_connectivity c) cal1
           = Inr (calibration d)"
    by blast
  have sq: "single_qubit_gate_duration (calibration d) = Map.empty"
    using edge_loop_frame(2) [OF l2] qubit_loop_frame(1) [OF l1]
    by (simp add: DeviceCalibration_init_def)
  have qs: "\<exists>p. json_properties c (str q) = Some p \<and>
         single_qubit_gate_fidelity (calibration d) q =
             Some [''id'' \<mapsto> fsub 1 (eID p), ''rz'' \<mapsto> 1,
                   ''sx'' \<mapsto> fsub 1 (eSX p), ''x'' \<mapsto> fsub 1 (eX p)] \<and>
         readout_fidelity (calibration d) q = Some (fsub 1 (eRO p)) \<and>
         readout_duration (calibration d) q = Some (fmul (tRO p) lit_1e_9) \<and>
         t1 (calibration d) q = Some (fmul (T1 p) lit_1e_6) \<and>
         t2 (calibration d) q = Some (fmul (T2 p) lit_1e_6)"
    if "q \<in> set (py_range (json_num_qubits c))" for q
    using qubit_loop_entry [OF l1 that] edge_loop_frame [OF l2] by simp
  have es: "\<exists>a b p err du. e = [a, b] \<and>
         json_properties c (str a) = Some p \<and>
         ek p (str a @ ''_'' @ str b) = Some err \<and> dk p (str a @ ''_'' @ str b) = Some du \<and>
         two_qubit_gate_fidelity (calibration d) (a, b) = Some [gname \<mapsto> fsub 1 err] \<and>
         two_qubit_gate_duration (calibration d) (a, b) = Some [gname \<mapsto> fmul du lit_1e_9]"
    if "e \<in> set (json_connectivity c)" for e
    using edge_loop_entry [OF l2 that] .
  show ?thesis
    using d file_import_backend_Inr(2-5) [OF d] sq qs es by blast
qed

lemma file_import_keys_ok:
  assumes "file_import_backend gname ek dk c = Inr d"
  shows "calibration_keys_ok d"
proof -
  from file_import_backend_Inr(1) [OF assms] obtain cal1 where
    l1: "for_each (file_qubit_body (json_properties c)) (py_range (json_num_qubits c))
           DeviceCalibration_init = Inr cal1" and
    l2: "for_each (file_edge_body gname ek dk (json_properties c)) (json_connectivity c) cal1
           = Inr (calibration d)"
    by blast
  have "dom (t1 (calibration d)) = set (py_range (json_num_qubits c))"
    "dom (t2 (calibration d)) = set (py_range (json_num_qubits c))"
    "dom (readout_fidelity (calibration d)) = set (py_range (json_num_qubits c))"
    "dom (readout_duration (calibration d)) = set (py_range (json_num_qubits c))"
    using qubit_loop_dom [OF l1] edge_loop_frame [OF l2]
    by (simp_all add: DeviceCalibration_init_def)
  moreover have "dom (two_qubit_gate_fidelity (calibration d)) = {(a, b). [a, b] \<in> set (json_connectivity c)}"
    "dom (two_qubit_gate_duration (calibration d)) = {(a, b). [a, b] \<in> set (json_connectivity c)}"
    using edge_loop_dom [OF l2] qubit_loop_frame(2,3) [OF l1]
    by (simp_all add: DeviceCalibration_init_def)
  ultimately show ?thesis
    using file_import_backend_Inr(3,5) [OF assms] by (auto simp: calibration_keys_ok_def)
qed

lemma oqc_import_entries:
  assumes "well_formed_oqc c"
  shows "\<exists>d. oqc_import_calibration c = Inr d \<and>
     name d = json_name c \<and> num_qubits d = json_num_qubits c \<and>
     basis_gates d = json_basis_gates c \<and> coupling_map d = json_connectivity c \<and>
     single_qubit_gate_duration (calibration d) = Map.empty \<and>
     two_qubit_gate_duration (calibration d) = Map.empty \<and>
     readout_duration (calibration d) = Map.empty \<and>
     (\<forall>q\<in>set (py_range (json_num_qubits c)).
        \<exists>p. one_qubit (json_properties c) (str q) = Some p \<and>
         single_qubit_gate_fidelity (calibration d) q =
             Some (map_of (map (\<lambda>g. (g, fRB p)) [''rz'', ''sx'', ''x''])) \<and>
         readout_fidelity (calibration d) q = Some (fRO p) \<and>
         t1 (calibration d) q = Some (fmul (T1 p) lit_1e_6) \<and>
         t2 (calibration d) q = Some (fmul (T2 p) lit_1e_6))"
proof -
  obtain d where d: "oqc_import_calibration c = Inr d"
    using oqc_import_calibration_total [OF assms] by blast
  from oqc_import_calibration_Inr(1) [OF d] obtain cal1 where
    l1: "for_each (oqc_qubit_body (json_properties c)) (py_range (json_num_qubits c))
           DeviceCalibration_init = Inr cal1" and
    l2: "for_each (oqc_edge_body (json_properties c)) (json_connectivity c) cal1
           = Inr (calibration d)"
    by blast
  have em: "single_qubit_gate_duration (calibration d) = Map.empty"
    "two_qubit_gate_duration (calibration d) = Map.empty"
    "readout_duration (calibration d) = Map.empty"
    using oqc_edge_loop_frame [OF l2] oqc_qubit_loop_frame [OF l1]
    by (simp_all add: DeviceCalibration_init_def)
  have qs: "\<exists>p. one_qubit (json_properties c) (str q) = Some p \<and>
         single_qubit_gate_fidelity (calibration d) q =
             Some (map_of (map (\<lambda>g. (g, fRB p)) [''rz'', ''sx'', ''x''])) \<and>
         readout_fidelity (calibration d) q = Some (fRO p) \<and>
         t1 (calibration d) q = Some (fmul (T1 p) lit_1e_6) \<and>
         t2 (calibration d) q = Some (fmul (T2 p) lit_1e_6)"
    if "q \<in> set (py_range (json_num_qubits c))" for q
    using oqc_qubit_loop_entry [OF l1 that] oqc_edge_loop_frame [OF l2] by simp
  show ?thesis
    using d oqc_import_calibration_Inr(2-5) [OF d] em qs by blast
qed

lemma oqc_import_keys_ok:
  assumes "oqc_import_calibration c = Inr d"
  shows "calibration_keys_ok d"
proof -
  from oqc_import_calibration_Inr(1) [OF assms] obtain cal1 where
    l1: "for_each (oqc_qubit_body (json_properties c)) (py_range (json_num_qubits c))
           DeviceCalibration_init = Inr cal1" and
    l2: "for_each (oqc_edge_body (json_properties c)) (json_connectivity c) cal1
           = Inr (calibration d)"
    by blast
  have "dom (t1 (calibration d)) = set (py_range (json_num_qubits c))"
    "dom (t2 (calibration d)) = set (py_range (json_num_qubits c))"
    "dom (readout_fidelity (calibration d)) = set (py_range (json_num_qubits c))"
    "dom (readout_duration (calibration d)) = {}"
    using oqc_qubit_loop_dom [OF l1] oqc_qubit_loop_frame(4) [OF l1] oqc_edge_loop_frame [OF l2]
    by (simp_all add: DeviceCalibration_init_def)
  moreover have "dom (two_qubit_gate_fidelity (calibration d)) = {(a, b). [a, b] \<in> set (json_connectivity c)}"
    "dom (two_qubit_gate_duration (calibration d)) = {}"
    using oqc_edge_loop_dom [OF l2] oqc_edge_loop_frame(3) [OF l2] oqc_qubit_loop_frame(2,3) [OF l1]
    by (simp_all add: DeviceCalibration_init_def)
  ultimately show ?thesis
    using oqc_import_calibration_Inr(3,5) [OF assms] by (auto simp: calibration_keys_ok_def)
qed

lemma example_ibm_import:
  "\<exists>d. IBMProvider_import_backend example_ibm = Inr d \<and>
     t1 (calibration d) 0 = Some (fmul 100 lit_1e_6) \<and>
     lookup2 (single_qubit_gate_fidelity (calibration d)) 0 ''rz'' = Some 1 \<and>
     lookup2 (two_qubit_gate_fidelity (calibration d)) (0, 1) ''cx'' = Some (fsub 1 (fl_round (1 / 100))) \<and>
     lookup2 (two_qubit_gate_duration (calibration d)) (0, 1) ''cx'' = Some (fmul 300 lit_1e_9)"
proof -
  have wf: "well_formed_file eCX tCX example_ibm"
    using well_formed_example_ibm by (simp add: well_formed_ibm_def)
  from file_import_entries [OF wf, of "''cx''"] obtain d where
    d: "file_import_backend ''cx'' eCX tCX example_ibm = Inr d" and
    qs: "\<forall>q\<in>set (py_range (json_num_qubits example_ibm)).
       \<exists>p. json_properties example_ibm (str q) = Some p \<and>
         single_qubit_gate_fidelity (calibration d) q =
             Some [''id'' \<mapsto> fsub 1 (eID p), ''rz'' \<mapsto> 1,
                   ''sx'' \<mapsto> fsub 1 (eSX p), ''x'' \<mapsto> fsub 1 (eX p)] \<and>
         readout_fidelity (calibration d) q = Some (fsub 1 (eRO p)) \<and>
         readout_duration (calibration d) q = Some (fmul (tRO p) lit_1e_9) \<and>
         t1 (calibration d) q = Some (fmul (T1 p) lit_1e_6) \<and>
         t2 (calibration d) q = Some (fmul (T2 p) lit_1e_6)" and
    es: "\<forall>e\<in>set (json_connectivity example_ibm). \<exists>a b p err du. e = [a, b] \<and>
         json_properties example_ibm (str a) = Some p \<and>
         eCX p (str a @ ''_'' @ str b) = Some err \<and> tCX p (str a @ ''_'' @ str b) = Some du \<and>
         two_qubit_gate_fidelity (calibration d) (a, b) = Some [''cx'' \<mapsto> fsub 1 err] \<and>
         two_qubit_gate_duration (calibration d) (a, b) = Some [''cx'' \<mapsto> fmul du lit_1e_9]"
    by blast
  have "0 \<in> set (py_range (json_num_qubits example_ibm))"
    by (simp add: example_ibm_def py_range_2)
  from qs [rule_format, OF this]
  have q0: "t1 (calibration d) 0 = Some (fmul 100 lit_1e_6)"
    "lookup2 (single_qubit_gate_fidelity (calibration d)) 0 ''rz'' = Some 1"
    by (auto simp: example_ibm_def example_qubit_ibm_def str_0 lookup2_def)
  have "[0, 1] \<in> set (json_connectivity example_ibm)"
    by (simp add: example_ibm_def)
  from es [rule_format, OF this]
  have e01: "lookup2 (two_qubit_gate_fidelity (calibration d)) (0, 1) ''cx'' = Some (fsub 1 (fl_round (1 / 100)))"
    "lookup2 (two_qubit_gate_duration (calibration d)) (0, 1) ''cx'' = Some (fmul 300 lit_1e_9)"
    by (auto simp: example_ibm_def example_qubit_ibm_def str_0 str_1 lookup2_def)
  show ?thesis
    using d q0 e01 by (auto simp: IBMProvider_import_backend_def)
qed

lemma well_formed_file_same_key:
  assumes "well_formed_file ek dk c"
  shows "well_formed_file ek ek c"
  unfolding well_formed_file_def
proof (intro conjI ballI)
  fix q assume "q \<in> set (py_range (json_num_qubits c))"
  then show "json_properties c (str q) \<noteq> None"
    using assms unfolding well_formed_file_def by blast
next
  fix e assume "e \<in> set (json_connectivity c)"
  then have "case e of
          [q1, q2] \<Rightarrow>
            (case json_properties c (str q1) of
               None \<Rightarrow> False
             | Some p \<Rightarrow> ek p (str q1 @ ''_'' @ str q2) \<noteq> None
                         \<and> dk p (str q1 @ ''_'' @ str q2) \<noteq> None)
        | _ \<Rightarrow> False"
    using assms unfolding well_formed_file_def by blast
  then show "case e of
          [q1, q2] \<Rightarrow>
            (case json_properties c (str q1) of
               None \<Rightarrow> False
             | Some p \<Rightarrow> ek p (str q1 @ ''_'' @ str q2) \<noteq> None
                         \<and> ek p (str q1 @ ''_'' @ str q2) \<noteq> None)
        | _ \<Rightarrow> False"
    by (auto split: list.splits option.splits)
qed

lemma file_import_rz:
  assumes "well_formed_file ek dk c"
  shows "\<exists>d. file_import_backend gname ek dk c = Inr d \<and>
           (\<forall>q\<in>set (py_range (num_qubits d)).
              lookup2 (single_qubit_gate_fidelity (calibration d)) q ''rz'' = Some 1)"
proof -
  from file_import_entries [OF assms, of gname] obtain d where
    d: "file_import_backend gname ek dk c = Inr d" and
    n: "num_qubits d = json_num_qubits c" and
    qs: "\<forall>q\<in>set (py_range (json_num_qubits c)).
       \<exists>p. json_properties c (str q) = Some p \<and>
         single_qubit_gate_fidelity (calibration d) q =
             Some [''id'' \<mapsto> fsub 1 (eID p), ''rz'' \<mapsto> 1,
                   ''sx'' \<mapsto> fsub 1 (eSX p), ''x'' \<mapsto> fsub 1 (eX p)] \<and>
         readout_fidelity (calibration d) q = Some (fsub 1 (eRO p)) \<and>
         readout_duration (calibration d) q = Some (fmul (tRO p) lit_1e_9) \<and>
         t1 (calibration d) q = Some (fmul (T1 p) lit_1e_6) \<and>
         t2 (calibration d) q = Some (fmul (T2 p) lit_1e_6)"
    by blast
  have "lookup2 (single_qubit_gate_fidelity (calibration d)) q ''rz'' = Some 1"
    if "q \<in> set (py_range (num_qubits d))" for q
    using qs that n by (fastforce simp: lookup2_def)
  then show ?thesis using d by blast
qed

lemma example_open_access_import:
  assumes "dk example_qubit_open_access ''0_1'' = Some du"
    and "well_formed_file eECR dk example_open_access"
  shows "\<exists>d. file_import_backend ''ecr'' eECR dk example_open_access = Inr d \<and>
     lookup2 (single_qubit_gate_fidelity (calibration d)) 0 ''rz'' = Some 1 \<and>
     lookup2 (two_qubit_gate_duration (calibration d)) (0, 1) ''ecr'' = Some (fmul du lit_1e_9)"
proof -
  from file_import_entries [OF assms(2), of "''ecr''"] obtain d where
    d: "file_import_backend ''ecr'' eECR dk example_open_access = Inr d" and
    qs: "\<forall>q\<in>set (py_range (json_num_qubits example_open_access)).
       \<exists>p. json_properties example_open_access (str q) = Some p \<and>
         single_qubit_gate_fidelity (calibration d) q =
             Some [''id'' \<mapsto> fsub 1 (eID p), ''rz'' \<mapsto> 1,
                   ''sx'' \<mapsto> fsub 1 (eSX p), ''x'' \<mapsto> fsub 1 (eX p)] \<and>
         readout_fidelity (calibration d) q = Some (fsub 1 (eRO p)) \<and>
         readout_duration (calibration d) q = Some (fmul (tRO p) lit_1e_9) \<and>
         t1 (calibration d) q = Some (fmul (T1 p) lit_1e_6) \<and>
         t2 (calibration d) q = Some (fmul (T2 p) lit_1e_6)" and
    es: "\<forall>e\<in>set (json_connectivity example_open_access). \<exists>a b p err du. e = [a, b] \<and>
         json_properties example_open_access (str a) = Some p \<and>
         eECR p (str a @ ''_'' @ str b) = Some err \<and> dk p (str a @ ''_'' @ str b) = Some du \<and>
         two_qubit_gate_fidelity (calibration d) (a, b) = Some [''ecr'' \<mapsto> fsub 1 err] \<and>
         two_qubit_gate_duration (calibration d) (a, b) = Some [''ecr'' \<mapsto> fmul du lit_1e_9]"
    by blast
  have "0 \<in> set (py_range (json_num_qubits example_open_access))"
    by (simp add: example_open_access_def py_range_2)
  from qs [rule_format, OF this]
  have q0: "lookup2 (single_qubit_gate_fidelity (calibration d)) 0 ''rz'' = Some 1"
    by (auto simp: lookup2_def)
  have "[0, 1] \<in> set (json_connectivity example_open_access)"
    by (simp add: example_open_access_def)
  from es [rule_format, OF this] assms(1)
  have e01: "lookup2 (two_qubit_gate_duration (calibration d)) (0, 1) ''ecr'' = Some (fmul du lit_1e_9)"
    by (auto simp: example_open_access_def str_0 str_1 lookup2_def)
  show ?thesis
    using d q0 e01 by auto
qed

lemma example_open_access_ibm_py:
  "\<exists>d. ibm_IBMOpenAccessProvider_import_backend example_open_access = Inr d \<and>
     lookup2 (single_qubit_gate_fidelity (calibration d)) 0 ''rz'' = Some 1 \<and>
     lookup2 (two_qubit_gate_duration (calibration d)) (0, 1) ''ecr'' = Some (fmul 660 lit_1e_9)"
  unfolding ibm_IBMOpenAccessProvider_import_backend_def
  using well_formed_example_open_access
  by (intro example_open_access_import)
     (simp_all add: example_qubit_open_access_def well_formed_open_access_def)

lemma example_open_access_oa_py:
  "\<exists>d. ibm_open_access_IBMOpenAccessProvider_import_backend example_open_access = Inr d \<and>
     lookup2 (single_qubit_gate_fidelity (calibration d)) 0 ''rz'' = Some 1 \<and>
     lookup2 (two_qubit_gate_duration (calibration d)) (0, 1) ''ecr''
       = Some (fmul (fl_round (1 / 100)) lit_1e_9)"
  unfolding ibm_open_access_IBMOpenAccessProvider_import_backend_def
  using well_formed_example_open_access
  by (intro example_open_access_import)
     (simp_all add: example_qubit_open_access_def well_formed_open_access_def
        well_formed_file_same_key)

lemma projr_of_Inr: "x = Inr d \<Longrightarrow> \<not> isl x \<and> projr x = d"
  by simp

text \<open>The two open-access importers differ in nothing but the table
  \<open>two_qubit_gate_duration\<close>.\<close>

lemma edge_loop_dur_key:
  assumes "for_each (file_edge_body gname ek dk props) es cal = Inr calA"
    and "for_each (file_edge_body gname ek dk' props) es cal' = Inr calB"
    and "cal' = cal\<lparr>two_qubit_gate_duration := two_qubit_gate_duration cal'\<rparr>"
  shows "calB = calA\<lparr>two_qubit_gate_duration := two_qubit_gate_duration calB\<rparr>"
  using assms
proof (induction es arbitrary: cal cal')
  case Nil
  then show ?case by simp
next
  case (Cons x xs)
  from Cons.prems(1) obtain cal1 where
    s1: "file_edge_body gname ek dk props cal x = Inr cal1" and
    r1: "for_each (file_edge_body gname ek dk props) xs cal1 = Inr calA"
    by (auto split: sum.splits)
  from Cons.prems(2) obtain cal1' where
    s2: "file_edge_body gname ek dk' props cal' x = Inr cal1'" and
    r2: "for_each (file_edge_body gname ek dk' props) xs cal1' = Inr calB"
    by (auto split: sum.splits)
  from s1 obtain a b p err d where x: "x = [a, b]" and p: "props (str a) = Some p" and
    e: "ek p (str a @ ''_'' @ str b) = Some err" and
    c1: "cal1 = cal\<lparr> two_qubit_gate_fidelity := (two_qubit_gate_fidelity cal)
                        ((a, b) \<mapsto> [gname \<mapsto> fsub 1 err]),
                     two_qubit_gate_duration := (two_qubit_gate_duration cal)
                        ((a, b) \<mapsto> [gname \<mapsto> fmul d lit_1e_9]) \<rparr>"
    unfolding file_edge_body_Inr by blast
  from s2 obtain a' b' p' err' d' where x': "x = [a', b']" and p': "props (str a') = Some p'" and
    e': "ek p' (str a' @ ''_'' @ str b') = Some err'" and
    c2: "cal1' = cal'\<lparr> two_qubit_gate_fidelity := (two_qubit_gate_fidelity cal')
                        ((a', b') \<mapsto> [gname \<mapsto> fsub 1 err']),
                     two_qubit_gate_duration := (two_qubit_gate_duration cal')
                        ((a', b') \<mapsto> [gname \<mapsto> fmul d' lit_1e_9]) \<rparr>"
    unfolding file_edge_body_Inr by blast
  have same: "a' = a" "b' = b" "p' = p" "err' = err" using x x' p p' e e' by auto
  have tq: "two_qubit_gate_fidelity cal' = two_qubit_gate_fidelity cal"
    by (subst Cons.prems(3)) simp
  have "cal1' = cal1\<lparr>two_qubit_gate_duration := two_qubit_gate_duration cal1'\<rparr>"
    unfolding c1 c2 same by (subst Cons.prems(3)) (simp add: tq)
  then show ?case by (rule Cons.IH [OF r1 r2])
qed

lemma open_access_importers_agree_elsewhere:
  assumes "ibm_IBMOpenAccessProvider_import_backend c = Inr d"
    and "ibm_open_access_IBMOpenAccessProvider_import_backend c = Inr d'"
  shows "d' = d\<lparr>calibration := (calibration d)\<lparr>two_qubit_gate_duration :=
                  two_qubit_gate_duration (calibration d')\<rparr>\<rparr>"
proof -
  from assms(1) have a: "file_import_backend ''ecr'' eECR tECR c = Inr d"
    by (simp add: ibm_IBMOpenAccessProvider_import_backend_def)
  from assms(2) have b: "file_import_backend ''ecr'' eECR eECR c = Inr d'"
    by (simp add: ibm_open_access_IBMOpenAccessProvider_import_backend_def)
  from file_import_backend_Inr(1) [OF a] obtain cal1 where
    l1: "for_each (file_qubit_body (json_properties c)) (py_range (json_num_qubits c))
           DeviceCalibration_init = Inr cal1" and
    l2: "for_each (file_edge_body ''ecr'' eECR tECR (json_properties c)) (json_connectivity c) cal1
           = Inr (calibration d)"
    by blast
  from file_import_backend_Inr(1) [OF b] l1 have
    l2': "for_each (file_edge_body ''ecr'' eECR eECR (json_properties c)) (json_connectivity c) cal1
           = Inr (calibration d')"
    by simp
  have "calibration d' = (calibration d)\<lparr>two_qubit_gate_duration :=
                  two_qubit_gate_duration (calibration d')\<rparr>"
    by (rule edge_loop_dur_key [OF l2 l2']) simp
  moreover have "name d' = name d" "num_qubits d' = num_qubits d" "basis_gates d' = basis_gates d"
    "coupling_map d' = coupling_map d"
    using file_import_backend_Inr(2-5) [OF a] file_import_backend_Inr(2-5) [OF b] by simp_all
  ultimately show ?thesis by (cases d; cases d') simp
qed

section \<open>The claims about the file-based importers\<close>

text \<open>
  C3.  For a well-formed IBM file the import returns a device in which, for
  every qubit \<open>q\<close> of \<open>range(num_qubits)\<close>, \<open>t1[q]\<close> and \<open>t2[q]\<close> are the float products
  \<open>T1 * 1e-6\<close> and \<open>T2 * 1e-6\<close> and \<open>readout_duration[q]\<close> is \<open>tRO * 1e-9\<close>, and for
  every edge \<open>(q1, q2)\<close> of the connectivity the \<open>cx\<close> fidelity is \<open>1 - eCX["{q1}_{q2}"]\<close>
  and the \<open>cx\<close> duration is \<open>tCX["{q1}_{q2}"] * 1e-9\<close>, both read from the property block
  of \<open>q1\<close>.  In floats, \<open>100 * 1e-6\<close> is \<open>9.999999999999999e-05\<close>, \<open>1 - 0.01\<close> is the
  float \<open>0.99\<close>, and \<open>300 * 1e-9\<close> is \<open>3.0000000000000004e-07\<close>.
\<close>

theorem C3_ibm_unit_conversion:
  assumes "well_formed_ibm c"
  shows "\<exists>d. IBMProvider_import_backend c = Inr d \<and>
     (\<forall>q\<in>set (py_range (json_num_qubits c)). \<exists>p. json_properties c (str q) = Some p \<and>
        t1 (calibration d) q = Some (fmul (T1 p) lit_1e_6) \<and>
        t2 (calibration d) q = Some (fmul (T2 p) lit_1e_6) \<and>
        readout_duration (calibration d) q = Some (fmul (tRO p) lit_1e_9)) \<and>
     (\<forall>e\<in>set (json_connectivity c). \<exists>q1 q2 p err du. e = [q1, q2] \<and>
        json_properties c (str q1) = Some p \<and>
        eCX p (str q1 @ ''_'' @ str q2) = Some err \<and>
        tCX p (str q1 @ ''_'' @ str q2) = Some du \<and>
        lookup2 (two_qubit_gate_fidelity (calibration d)) (q1, q2) ''cx'' = Some (fsub 1 err) \<and>
        lookup2 (two_qubit_gate_duration (calibration d)) (q1, q2) ''cx''
          = Some (fmul du lit_1e_9)) \<and>
     fmul 100 lit_1e_6 = 1844674407370955 / 18446744073709551616 \<and>
     fsub 1 (fl_round (1 / 100)) = fl_round (99 / 100) \<and>
     fmul 300 lit_1e_9 = 5666839779443575 / 18889465931478580854784"
proof -
  have wf: "well_formed_file eCX tCX c" using assms by (simp add: well_formed_ibm_def)
  from file_import_entries [OF wf, of "''cx''"] obtain d where
    d: "file_import_backend ''cx'' eCX tCX c = Inr d" and
    qs: "\<forall>q\<in>set (py_range (json_num_qubits c)).
       \<exists>p. json_properties c (str q) = Some p \<and>
         single_qubit_gate_fidelity (calibration d) q =
             Some [''id'' \<mapsto> fsub 1 (eID p), ''rz'' \<mapsto> 1,
                   ''sx'' \<mapsto> fsub 1 (eSX p), ''x'' \<mapsto> fsub 1 (eX p)] \<and>
         readout_fidelity (calibration d) q = Some (fsub 1 (eRO p)) \<and>
         readout_duration (calibration d) q = Some (fmul (tRO p) lit_1e_9) \<and>
         t1 (calibration d) q = Some (fmul (T1 p) lit_1e_6) \<and>
         t2 (calibration d) q = Some (fmul (T2 p) lit_1e_6)" and
    es: "\<forall>e\<in>set (json_connectivity c). \<exists>a b p err du. e = [a, b] \<and>
         json_properties c (str a) = Some p \<and>
         eCX p (str a @ ''_'' @ str b) = Some err \<and> tCX p (str a @ ''_'' @ str b) = Some du \<and>
         two_qubit_gate_fidelity (calibration d) (a, b) = Some [''cx'' \<mapsto> fsub 1 err] \<and>
         two_qubit_gate_duration (calibration d) (a, b) = Some [''cx'' \<mapsto> fmul du lit_1e_9]"
    by blast
  have 1: "\<forall>q\<in>set (py_range (json_num_qubits c)). \<exists>p. json_properties c (str q) = Some p \<and>
        t1 (calibration d) q = Some (fmul (T1 p) lit_1e_6) \<and>
        t2 (calibration d) q = Some (fmul (T2 p) lit_1e_6) \<and>
        readout_duration (calibration d) q = Some (fmul (tRO p) lit_1e_9)"
    using qs by blast
  have 2: "\<forall>e\<in>set (json_connectivity c). \<exists>q1 q2 p err du. e = [q1, q2] \<and>
        json_properties c (str q1) = Some p \<and>
        eCX p (str q1 @ ''_'' @ str q2) = Some err \<and>
        tCX p (str q1 @ ''_'' @ str q2) = Some du \<and>
        lookup2 (two_qubit_gate_fidelity (calibration d)) (q1, q2) ''cx'' = Some (fsub 1 err) \<and>
        lookup2 (two_qubit_gate_duration (calibration d)) (q1, q2) ''cx''
          = Some (fmul du lit_1e_9)"
  proof
    fix e assume "e \<in> set (json_connectivity c)"
    with es obtain a b p err du where "e = [a, b]"
         "json_properties c (str a) = Some p"
         "eCX p (str a @ ''_'' @ str b) = Some err" "tCX p (str a @ ''_'' @ str b) = Some du"
         "two_qubit_gate_fidelity (calibration d) (a, b) = Some [''cx'' \<mapsto> fsub 1 err]"
         "two_qubit_gate_duration (calibration d) (a, b) = Some [''cx'' \<mapsto> fmul du lit_1e_9]"
      by blast
    then show "\<exists>q1 q2 p err du. e = [q1, q2] \<and>
        json_properties c (str q1) = Some p \<and>
        eCX p (str q1 @ ''_'' @ str q2) = Some err \<and>
        tCX p (str q1 @ ''_'' @ str q2) = Some du \<and>
        lookup2 (two_qubit_gate_fidelity (calibration d)) (q1, q2) ''cx'' = Some (fsub 1 err) \<and>
        lookup2 (two_qubit_gate_duration (calibration d)) (q1, q2) ''cx''
          = Some (fmul du lit_1e_9)"
      by (intro exI [of _ a] exI [of _ b] exI [of _ p] exI [of _ err] exI [of _ du])
         (simp add: lookup2_def)
  qed
  have 3: "fsub 1 (fl_round (1 / 100)) = fl_round (99 / 100)"
    by (simp only: float_1_minus_0_01 float_0_99)
  show ?thesis
    unfolding IBMProvider_import_backend_def
    using d 1 2 3 float_100_us float_300_ns by blast
qed

theorem C3_ibm_unit_conversion_witness:
  "well_formed_ibm example_ibm \<and>
   (\<exists>d. IBMProvider_import_backend example_ibm = Inr d \<and>
      t1 (calibration d) 0 = Some (fmul 100 lit_1e_6) \<and>
      lookup2 (two_qubit_gate_fidelity (calibration d)) (0, 1) ''cx'' = Some (fl_round (99 / 100)) \<and>
      lookup2 (two_qubit_gate_duration (calibration d)) (0, 1) ''cx'' = Some (fmul 300 lit_1e_9))"
proof -
  from C3_ibm_unit_conversion [OF well_formed_example_ibm] obtain d where
    d: "IBMProvider_import_backend example_ibm = Inr d" and
    qs: "\<forall>q\<in>set (py_range (json_num_qubits example_ibm)).
        \<exists>p. json_properties example_ibm (str q) = Some p \<and>
        t1 (calibration d) q = Some (fmul (T1 p) lit_1e_6) \<and>
        t2 (calibration d) q = Some (fmul (T2 p) lit_1e_6) \<and>
        readout_duration (calibration d) q = Some (fmul (tRO p) lit_1e_9)" and
    es: "\<forall>e\<in>set (json_connectivity example_ibm). \<exists>q1 q2 p err du. e = [q1, q2] \<and>
        json_properties example_ibm (str q1) = Some p \<and>
        eCX p (str q1 @ ''_'' @ str q2) = Some err \<and>
        tCX p (str q1 @ ''_'' @ str q2) = Some du \<and>
        lookup2 (two_qubit_gate_fidelity (calibration d)) (q1, q2) ''cx'' = Some (fsub 1 err) \<and>
        lookup2 (two_qubit_gate_duration (calibration d)) (q1, q2) ''cx''
          = Some (fmul du lit_1e_9)" and
    fl: "fsub 1 (fl_round (1 / 100)) = fl_round (99 / 100)"
    by blast
  have "0 \<in> set (py_range (json_num_qubits example_ibm))"
    by (simp add: example_ibm_def py_range_2)
  from qs [rule_format, OF this]
  have q0: "t1 (calibration d) 0 = Some (fmul 100 lit_1e_6)"
    by (auto simp: example_ibm_def example_qubit_ibm_def str_0)
  have "[0, 1] \<in> set (json_connectivity example_ibm)"
    by (simp add: example_ibm_def)
  from es [rule_format, OF this]
  have e01: "lookup2 (two_qubit_gate_fidelity (calibration d)) (0, 1) ''cx''
       = Some (fsub 1 (fl_round (1 / 100)))"
    "lookup2 (two_qubit_gate_duration (calibration d)) (0, 1) ''cx'' = Some (fmul 300 lit_1e_9)"
    by (auto simp: example_ibm_def example_qubit_ibm_def str_0 str_1)
  show ?thesis
    using well_formed_example_ibm d q0 e01 fl by auto
qed

text \<open>
  C3, the exact values.  For the example file, whose qubit \<open>0\<close> has \<open>T1=100\<close>
  and whose edge \<open>(0, 1)\<close> has \<open>tCX=300\<close>, \<open>t1[0]\<close> is not the float \<open>100e-6\<close> and the
  \<open>cx\<close> duration is not the float \<open>300e-9\<close>.
\<close>

theorem C3_exact_values_counterexample:
  "\<not> isl (IBMProvider_import_backend example_ibm) \<and>
   t1 (calibration (projr (IBMProvider_import_backend example_ibm))) 0
     = Some (fmul 100 lit_1e_6) \<and>
   fmul 100 lit_1e_6 \<noteq> fl_round (100 / 1000000) \<and>
   lookup2 (two_qubit_gate_duration (calibration (projr (IBMProvider_import_backend example_ibm))))
     (0, 1) ''cx'' = Some (fmul 300 lit_1e_9) \<and>
   fmul 300 lit_1e_9 \<noteq> fl_round (300 / 1000000000)"
proof -
  from example_ibm_import obtain d where
    d: "IBMProvider_import_backend example_ibm = Inr d" and
    v: "t1 (calibration d) 0 = Some (fmul 100 lit_1e_6)"
       "lookup2 (two_qubit_gate_duration (calibration d)) (0, 1) ''cx'' = Some (fmul 300 lit_1e_9)"
    by blast
  have "fmul 100 lit_1e_6 \<noteq> fl_round (100 / 1000000)"
    unfolding float_100_us float_100e_6 by simp
  moreover have "fmul 300 lit_1e_9 \<noteq> fl_round (300 / 1000000000)"
    unfolding float_300_ns float_300e_9 by simp
  ultimately show ?thesis using v by (simp add: d)
qed

text \<open>
  C2.  The importer of \<open>ibm_open_access.py\<close>, on the example file with
  \<open>eECR["0_1"] = 0.01\<close> and \<open>tECR["0_1"] = 660\<close>: the \<open>ecr\<close> duration of the edge
  \<open>(0, 1)\<close> is \<open>0.01 * 1e-9\<close>, the scaled error, and not \<open>660 * 1e-9\<close>.
\<close>

theorem C2_open_access_duration_read_from_eECR:
  "\<not> isl (ibm_open_access_IBMOpenAccessProvider_import_backend example_open_access) \<and>
   lookup2 (two_qubit_gate_duration (calibration (projr
       (ibm_open_access_IBMOpenAccessProvider_import_backend example_open_access)))) (0, 1) ''ecr''
     = Some (fmul (fl_round (1 / 100)) lit_1e_9) \<and>
   fmul (fl_round (1 / 100)) lit_1e_9 \<noteq> fmul 660 lit_1e_9"
proof -
  from example_open_access_oa_py obtain d where
    d: "ibm_open_access_IBMOpenAccessProvider_import_backend example_open_access = Inr d" and
    v: "lookup2 (two_qubit_gate_duration (calibration d)) (0, 1) ''ecr''
       = Some (fmul (fl_round (1 / 100)) lit_1e_9)"
    by blast
  have "fmul (fl_round (1 / 100)) lit_1e_9 \<noteq> fmul 660 lit_1e_9"
    unfolding float_0_01_ns float_660_ns by simp
  then show ?thesis using v by (simp add: d)
qed

text \<open>
  C4.  For every well-formed file, each of the three file-based IBM importers returns a
  device whose \<open>single_qubit_gate_fidelity[q]["rz"]\<close> is \<open>1\<close> for every qubit \<open>q\<close> of
  \<open>range(num_qubits)\<close>, whatever the file contains.
\<close>

theorem C4_rz_fidelity_is_one:
  "(well_formed_ibm c \<longrightarrow>
      (\<exists>d. IBMProvider_import_backend c = Inr d \<and>
         (\<forall>q\<in>set (py_range (num_qubits d)).
            lookup2 (single_qubit_gate_fidelity (calibration d)) q ''rz'' = Some 1))) \<and>
   (well_formed_open_access c' \<longrightarrow>
      (\<exists>d. ibm_IBMOpenAccessProvider_import_backend c' = Inr d \<and>
         (\<forall>q\<in>set (py_range (num_qubits d)).
            lookup2 (single_qubit_gate_fidelity (calibration d)) q ''rz'' = Some 1)) \<and>
      (\<exists>d. ibm_open_access_IBMOpenAccessProvider_import_backend c' = Inr d \<and>
         (\<forall>q\<in>set (py_range (num_qubits d)).
            lookup2 (single_qubit_gate_fidelity (calibration d)) q ''rz'' = Some 1)))"
proof (intro conjI impI)
  assume "well_formed_ibm c"
  then have "well_formed_file eCX tCX c" by (simp add: well_formed_ibm_def)
  then show "\<exists>d. IBMProvider_import_backend c = Inr d \<and>
         (\<forall>q\<in>set (py_range (num_qubits d)).
            lookup2 (single_qubit_gate_fidelity (calibration d)) q ''rz'' = Some 1)"
    unfolding IBMProvider_import_backend_def by (rule file_import_rz)
next
  assume "well_formed_open_access c'"
  then have "well_formed_file eECR tECR c'" by (simp add: well_formed_open_access_def)
  then show "\<exists>d. ibm_IBMOpenAccessProvider_import_backend c' = Inr d \<and>
         (\<forall>q\<in>set (py_range (num_qubits d)).
            lookup2 (single_qubit_gate_fidelity (calibration d)) q ''rz'' = Some 1)"
    unfolding ibm_IBMOpenAccessProvider_import_backend_def by (rule file_import_rz)
next
  assume "well_formed_open_access c'"
  then have "well_formed_file eECR tECR c'" by (simp add: well_formed_open_access_def)
  then have "well_formed_file eECR eECR c'" by (rule well_formed_file_same_key)
  then show "\<exists>d. ibm_open_access_IBMOpenAccessProvider_import_backend c' = Inr d \<and>
         (\<forall>q\<in>set (py_range (num_qubits d)).
            lookup2 (single_qubit_gate_fidelity (calibration d)) q ''rz'' = Some 1)"
    unfolding ibm_open_access_IBMOpenAccessProvider_import_backend_def by (rule file_import_rz)
qed

theorem C4_rz_fidelity_is_one_witness:
  "well_formed_ibm example_ibm \<and> well_formed_open_access example_open_access \<and>
   (\<exists>d. IBMProvider_import_backend example_ibm = Inr d \<and>
      lookup2 (single_qubit_gate_fidelity (calibration d)) 0 ''rz'' = Some 1 \<and>
      lookup2 (single_qubit_gate_fidelity (calibration d)) 1 ''rz'' = Some 1) \<and>
   (\<exists>d. ibm_IBMOpenAccessProvider_import_backend example_open_access = Inr d \<and>
      lookup2 (single_qubit_gate_fidelity (calibration d)) 0 ''rz'' = Some 1 \<and>
      lookup2 (single_qubit_gate_fidelity (calibration d)) 1 ''rz'' = Some 1) \<and>
   (\<exists>d. ibm_open_access_IBMOpenAccessProvider_import_backend example_open_access = Inr d \<and>
      lookup2 (single_qubit_gate_fidelity (calibration d)) 0 ''rz'' = Some 1 \<and>
      lookup2 (single_qubit_gate_fidelity (calibration d)) 1 ''rz'' = Some 1)"
proof -
  note inst = C4_rz_fidelity_is_one [of example_ibm example_open_access]
  have r: "set (py_range 2) = {0, 1}" by (auto simp: py_range_2)
  from inst well_formed_example_ibm obtain d1 where
    d1: "IBMProvider_import_backend example_ibm = Inr d1" and
    q1: "\<forall>q\<in>set (py_range (num_qubits d1)).
            lookup2 (single_qubit_gate_fidelity (calibration d1)) q ''rz'' = Some 1"
    by blast
  have n1: "num_qubits d1 = 2"
    using d1 file_import_backend_Inr(3) [of "''cx''" eCX tCX example_ibm d1]
    by (simp add: IBMProvider_import_backend_def example_ibm_def)
  from inst well_formed_example_open_access obtain d2 where
    d2: "ibm_IBMOpenAccessProvider_import_backend example_open_access = Inr d2" and
    q2: "\<forall>q\<in>set (py_range (num_qubits d2)).
            lookup2 (single_qubit_gate_fidelity (calibration d2)) q ''rz'' = Some 1"
    by blast
  have n2: "num_qubits d2 = 2"
    using d2 file_import_backend_Inr(3) [of "''ecr''" eECR tECR example_open_access d2]
    by (simp add: ibm_IBMOpenAccessProvider_import_backend_def example_open_access_def)
  from inst well_formed_example_open_access obtain d3 where
    d3: "ibm_open_access_IBMOpenAccessProvider_import_backend example_open_access = Inr d3" and
    q3: "\<forall>q\<in>set (py_range (num_qubits d3)).
            lookup2 (single_qubit_gate_fidelity (calibration d3)) q ''rz'' = Some 1"
    by blast
  have n3: "num_qubits d3 = 2"
    using d3 file_import_backend_Inr(3) [of "''ecr''" eECR eECR example_open_access d3]
    by (simp add: ibm_open_access_IBMOpenAccessProvider_import_backend_def example_open_access_def)
  show ?thesis
    using well_formed_example_ibm well_formed_example_open_access
      d1 q1 d2 q2 d3 q3 by (simp add: n1 n2 n3 r)
qed

text \<open>
  C10.  The two open-access importers disagree on the example file: the importer of
  \<open>ibm.py\<close> gives the edge \<open>(0, 1)\<close> the \<open>ecr\<close> duration \<open>660 * 1e-9\<close> (from \<open>tECR\<close>), the
  importer of \<open>ibm_open_access.py\<close> gives it \<open>0.01 * 1e-9\<close> (from \<open>eECR\<close>).
\<close>

theorem C10_open_access_importers_differ:
  "\<not> isl (ibm_IBMOpenAccessProvider_import_backend example_open_access) \<and>
   \<not> isl (ibm_open_access_IBMOpenAccessProvider_import_backend example_open_access) \<and>
   lookup2 (two_qubit_gate_duration (calibration (projr
       (ibm_IBMOpenAccessProvider_import_backend example_open_access)))) (0, 1) ''ecr''
     = Some (1558380939346983 / 2361183241434822606848) \<and>
   lookup2 (two_qubit_gate_duration (calibration (projr
       (ibm_open_access_IBMOpenAccessProvider_import_backend example_open_access)))) (0, 1) ''ecr''
     = Some (3094850098213451 / 309485009821345068724781056) \<and>
   ibm_IBMOpenAccessProvider_import_backend example_open_access
     \<noteq> ibm_open_access_IBMOpenAccessProvider_import_backend example_open_access"
proof -
  from example_open_access_ibm_py obtain d where
    d: "ibm_IBMOpenAccessProvider_import_backend example_open_access = Inr d" and
    v: "lookup2 (two_qubit_gate_duration (calibration d)) (0, 1) ''ecr'' = Some (fmul 660 lit_1e_9)"
    by blast
  from example_open_access_oa_py obtain d' where
    d': "ibm_open_access_IBMOpenAccessProvider_import_backend example_open_access = Inr d'" and
    v': "lookup2 (two_qubit_gate_duration (calibration d')) (0, 1) ''ecr''
       = Some (fmul (fl_round (1 / 100)) lit_1e_9)"
    by blast
  have "d \<noteq> d'" using v v' unfolding float_0_01_ns float_660_ns by auto
  then show ?thesis
    using v v' unfolding float_0_01_ns float_660_ns by (simp add: d d')
qed

lemma OQCProvider_import_backend_file:
  "files (nm @ ''_calibration.json'') = Some c \<Longrightarrow>
     OQCProvider_import_backend files nm = oqc_import_calibration c"
  by (simp add: OQCProvider_import_backend_def)

lemma example_files_lucy: "example_files (''oqc_lucy'' @ ''_calibration.json'') = Some example_oqc"
  by (simp add: example_files_def)

text \<open>
  C5.  For a well-formed OQC file, the import returns a device in which, for every qubit
  \<open>q\<close> of \<open>range(num_qubits)\<close>, the \<open>rz\<close>, \<open>sx\<close> and \<open>x\<close> fidelities are all the \<open>fRB\<close> of
  the qubit's \<open>one_qubit\<close> block and \<open>readout_fidelity[q]\<close> is its \<open>fRO\<close>, unchanged.
\<close>

theorem C5_oqc_fidelities:
  assumes "files (nm @ ''_calibration.json'') = Some c" and "well_formed_oqc c"
  shows "\<exists>d. OQCProvider_import_backend files nm = Inr d \<and>
     (\<forall>q\<in>set (py_range (json_num_qubits c)).
        \<exists>p. one_qubit (json_properties c) (str q) = Some p \<and>
          lookup2 (single_qubit_gate_fidelity (calibration d)) q ''rz'' = Some (fRB p) \<and>
          lookup2 (single_qubit_gate_fidelity (calibration d)) q ''sx'' = Some (fRB p) \<and>
          lookup2 (single_qubit_gate_fidelity (calibration d)) q ''x'' = Some (fRB p) \<and>
          readout_fidelity (calibration d) q = Some (fRO p))"
proof -
  from oqc_import_entries [OF assms(2)] obtain d where
    d: "oqc_import_calibration c = Inr d" and
    qs: "\<forall>q\<in>set (py_range (json_num_qubits c)).
        \<exists>p. one_qubit (json_properties c) (str q) = Some p \<and>
         single_qubit_gate_fidelity (calibration d) q =
             Some (map_of (map (\<lambda>g. (g, fRB p)) [''rz'', ''sx'', ''x''])) \<and>
         readout_fidelity (calibration d) q = Some (fRO p) \<and>
         t1 (calibration d) q = Some (fmul (T1 p) lit_1e_6) \<and>
         t2 (calibration d) q = Some (fmul (T2 p) lit_1e_6)"
    by blast
  have "\<exists>p. one_qubit (json_properties c) (str q) = Some p \<and>
          lookup2 (single_qubit_gate_fidelity (calibration d)) q ''rz'' = Some (fRB p) \<and>
          lookup2 (single_qubit_gate_fidelity (calibration d)) q ''sx'' = Some (fRB p) \<and>
          lookup2 (single_qubit_gate_fidelity (calibration d)) q ''x'' = Some (fRB p) \<and>
          readout_fidelity (calibration d) q = Some (fRO p)"
    if "q \<in> set (py_range (json_num_qubits c))" for q
    using qs that by (fastforce simp: lookup2_def)
  then show ?thesis
    using d OQCProvider_import_backend_file [of files nm c, OF assms(1)] by auto
qed

theorem C5_oqc_fidelities_witness:
  "example_files (''oqc_lucy'' @ ''_calibration.json'') = Some example_oqc \<and>
   well_formed_oqc example_oqc \<and>
   (\<exists>d. OQCProvider_import_backend example_files ''oqc_lucy'' = Inr d \<and>
      lookup2 (single_qubit_gate_fidelity (calibration d)) 0 ''rz'' = Some (fl_round (999 / 1000)) \<and>
      lookup2 (single_qubit_gate_fidelity (calibration d)) 0 ''sx'' = Some (fl_round (999 / 1000)) \<and>
      lookup2 (single_qubit_gate_fidelity (calibration d)) 0 ''x'' = Some (fl_round (999 / 1000)) \<and>
      readout_fidelity (calibration d) 0 = Some (fl_round (9 / 10)))"
proof -
  from C5_oqc_fidelities [of example_files "''oqc_lucy''" example_oqc, OF example_files_lucy well_formed_example_oqc] obtain d where
    d: "OQCProvider_import_backend example_files ''oqc_lucy'' = Inr d" and
    qs: "\<forall>q\<in>set (py_range (json_num_qubits example_oqc)).
        \<exists>p. one_qubit (json_properties example_oqc) (str q) = Some p \<and>
          lookup2 (single_qubit_gate_fidelity (calibration d)) q ''rz'' = Some (fRB p) \<and>
          lookup2 (single_qubit_gate_fidelity (calibration d)) q ''sx'' = Some (fRB p) \<and>
          lookup2 (single_qubit_gate_fidelity (calibration d)) q ''x'' = Some (fRB p) \<and>
          readout_fidelity (calibration d) q = Some (fRO p)"
    by blast
  have "0 \<in> set (py_range (json_num_qubits example_oqc))"
    by (simp add: example_oqc_def py_range_2)
  from qs [rule_format, OF this]
  have "lookup2 (single_qubit_gate_fidelity (calibration d)) 0 ''rz'' = Some (fl_round (999 / 1000))"
    "lookup2 (single_qubit_gate_fidelity (calibration d)) 0 ''sx'' = Some (fl_round (999 / 1000))"
    "lookup2 (single_qubit_gate_fidelity (calibration d)) 0 ''x'' = Some (fl_round (999 / 1000))"
    "readout_fidelity (calibration d) 0 = Some (fl_round (9 / 10))"
    by (auto simp: example_oqc_def example_qubit_oqc_def str_0)
  then show ?thesis
    using example_files_lucy well_formed_example_oqc d by blast
qed

text \<open>
  C9.  For a well-formed OQC file, the import returns a device whose
  \<open>two_qubit_gate_duration\<close>, \<open>readout_duration\<close> and \<open>single_qubit_gate_duration\<close> tables
  are empty: no key is present, so no duration is recorded (and none is zero), while
  \<open>t1\<close>, \<open>t2\<close>, \<open>readout_fidelity\<close> and \<open>single_qubit_gate_fidelity\<close> have the keys of
  \<open>range(num_qubits)\<close> and \<open>two_qubit_gate_fidelity\<close> the pairs of the connectivity.
\<close>

theorem C9_oqc_no_durations:
  assumes "files (nm @ ''_calibration.json'') = Some c" and "well_formed_oqc c"
  shows "\<exists>d. OQCProvider_import_backend files nm = Inr d \<and>
     two_qubit_gate_duration (calibration d) = Map.empty \<and>
     readout_duration (calibration d) = Map.empty \<and>
     single_qubit_gate_duration (calibration d) = Map.empty \<and>
     dom (t1 (calibration d)) = set (py_range (json_num_qubits c)) \<and>
     dom (t2 (calibration d)) = set (py_range (json_num_qubits c)) \<and>
     dom (readout_fidelity (calibration d)) = set (py_range (json_num_qubits c)) \<and>
     dom (single_qubit_gate_fidelity (calibration d)) = set (py_range (json_num_qubits c)) \<and>
     dom (two_qubit_gate_fidelity (calibration d)) = {(a, b). [a, b] \<in> set (json_connectivity c)}"
proof -
  from oqc_import_entries [OF assms(2)] obtain d where
    d: "oqc_import_calibration c = Inr d" and
    em: "single_qubit_gate_duration (calibration d) = Map.empty"
      "two_qubit_gate_duration (calibration d) = Map.empty"
      "readout_duration (calibration d) = Map.empty" and
    qs: "\<forall>q\<in>set (py_range (json_num_qubits c)).
        \<exists>p. one_qubit (json_properties c) (str q) = Some p \<and>
         single_qubit_gate_fidelity (calibration d) q =
             Some (map_of (map (\<lambda>g. (g, fRB p)) [''rz'', ''sx'', ''x''])) \<and>
         readout_fidelity (calibration d) q = Some (fRO p) \<and>
         t1 (calibration d) q = Some (fmul (T1 p) lit_1e_6) \<and>
         t2 (calibration d) q = Some (fmul (T2 p) lit_1e_6)"
    by blast
  from oqc_import_calibration_Inr(1) [OF d] obtain cal1 where
    l1: "for_each (oqc_qubit_body (json_properties c)) (py_range (json_num_qubits c))
           DeviceCalibration_init = Inr cal1" and
    l2: "for_each (oqc_edge_body (json_properties c)) (json_connectivity c) cal1
           = Inr (calibration d)"
    by blast
  have doms: "dom (t1 (calibration d)) = set (py_range (json_num_qubits c))"
    "dom (t2 (calibration d)) = set (py_range (json_num_qubits c))"
    "dom (readout_fidelity (calibration d)) = set (py_range (json_num_qubits c))"
    using oqc_qubit_loop_dom [OF l1] oqc_edge_loop_frame [OF l2]
    by (simp_all add: DeviceCalibration_init_def)
  have sq: "dom (single_qubit_gate_fidelity (calibration d)) = set (py_range (json_num_qubits c))"
  proof
    show "dom (single_qubit_gate_fidelity (calibration d)) \<subseteq> set (py_range (json_num_qubits c))"
    proof
      fix q assume q: "q \<in> dom (single_qubit_gate_fidelity (calibration d))"
      show "q \<in> set (py_range (json_num_qubits c))"
      proof (rule ccontr)
        assume "q \<notin> set (py_range (json_num_qubits c))"
        from oqc_qubit_loop_frame2 [OF l1 this]
        have "single_qubit_gate_fidelity cal1 q = None"
          by (simp add: DeviceCalibration_init_def)
        then show False using q oqc_edge_loop_frame(1) [OF l2] by auto
      qed
    qed
    show "set (py_range (json_num_qubits c)) \<subseteq> dom (single_qubit_gate_fidelity (calibration d))"
      using qs by fastforce
  qed
  have tq: "dom (two_qubit_gate_fidelity (calibration d)) = {(a, b). [a, b] \<in> set (json_connectivity c)}"
    using oqc_edge_loop_dom [OF l2] oqc_qubit_loop_frame(2) [OF l1]
    by (simp add: DeviceCalibration_init_def)
  show ?thesis
    using d OQCProvider_import_backend_file [of files nm c, OF assms(1)] em doms sq tq by auto
qed

theorem C9_oqc_no_durations_witness:
  "example_files (''oqc_lucy'' @ ''_calibration.json'') = Some example_oqc \<and>
   well_formed_oqc example_oqc \<and>
   (\<exists>d. OQCProvider_import_backend example_files ''oqc_lucy'' = Inr d \<and>
      two_qubit_gate_duration (calibration d) (0, 1) = None \<and>
      readout_duration (calibration d) 0 = None \<and>
      single_qubit_gate_duration (calibration d) 0 = None \<and>
      dom (t1 (calibration d)) = {0, 1} \<and>
      dom (two_qubit_gate_fidelity (calibration d)) = {(0, 1)})"
proof -
  from C9_oqc_no_durations [of example_files "''oqc_lucy''" example_oqc, OF example_files_lucy well_formed_example_oqc] obtain d where
    d: "OQCProvider_import_backend example_files ''oqc_lucy'' = Inr d" and
    em: "two_qubit_gate_duration (calibration d) = Map.empty"
     "readout_duration (calibration d) = Map.empty"
     "single_qubit_gate_duration (calibration d) = Map.empty" and
    doms: "dom (t1 (calibration d)) = set (py_range (json_num_qubits example_oqc))"
     "dom (two_qubit_gate_fidelity (calibration d))
        = {(a, b). [a, b] \<in> set (json_connectivity example_oqc)}"
    by blast
  have "set (py_range (json_num_qubits example_oqc)) = {0, 1}"
    by (auto simp: example_oqc_def py_range_2)
  moreover have "{(a, b). [a, b] \<in> set (json_connectivity example_oqc)} = {(0, 1)}"
    by (auto simp: example_oqc_def)
  ultimately show ?thesis
    using example_files_lucy well_formed_example_oqc d em doms by auto
qed

text \<open>
  C6.  Every device that a file-based importer returns satisfies: the keys of \<open>t1\<close>,
  \<open>t2\<close>, \<open>readout_fidelity\<close> and \<open>readout_duration\<close> are in \<open>range(num_qubits)\<close>, and
  every key \<open>(a, b)\<close> of \<open>two_qubit_gate_fidelity\<close> and \<open>two_qubit_gate_duration\<close> is an
  entry \<open>[a, b]\<close> of the coupling map.
\<close>

theorem C6_calibration_keys:
  "(IBMProvider_import_backend c1 = Inr d1 \<longrightarrow> calibration_keys_ok d1) \<and>
   (ibm_IBMOpenAccessProvider_import_backend c2 = Inr d2 \<longrightarrow> calibration_keys_ok d2) \<and>
   (ibm_open_access_IBMOpenAccessProvider_import_backend c3 = Inr d3 \<longrightarrow> calibration_keys_ok d3) \<and>
   (OQCProvider_import_backend files nm = Inr d4 \<longrightarrow> calibration_keys_ok d4)"
proof -
  have "calibration_keys_ok d4" if "OQCProvider_import_backend files nm = Inr d4"
  proof (cases "files (nm @ ''_calibration.json'')")
    case None
    then show ?thesis using that by (simp add: OQCProvider_import_backend_def)
  next
    case (Some c)
    then show ?thesis
      using that oqc_import_keys_ok [of c d4] by (simp add: OQCProvider_import_backend_def)
  qed
  then show ?thesis
    unfolding IBMProvider_import_backend_def ibm_IBMOpenAccessProvider_import_backend_def
      ibm_open_access_IBMOpenAccessProvider_import_backend_def
    by (auto dest: file_import_keys_ok)
qed

theorem C6_calibration_keys_witness:
  "\<not> isl (IBMProvider_import_backend example_ibm) \<and>
   \<not> isl (ibm_IBMOpenAccessProvider_import_backend example_open_access) \<and>
   \<not> isl (ibm_open_access_IBMOpenAccessProvider_import_backend example_open_access) \<and>
   \<not> isl (OQCProvider_import_backend example_files ''oqc_lucy'') \<and>
   calibration_keys_ok (projr (IBMProvider_import_backend example_ibm)) \<and>
   calibration_keys_ok (projr (ibm_IBMOpenAccessProvider_import_backend example_open_access)) \<and>
   calibration_keys_ok
     (projr (ibm_open_access_IBMOpenAccessProvider_import_backend example_open_access)) \<and>
   calibration_keys_ok (projr (OQCProvider_import_backend example_files ''oqc_lucy''))"
proof -
  from example_ibm_import obtain d1 where
    d1: "IBMProvider_import_backend example_ibm = Inr d1" by blast
  from example_open_access_ibm_py obtain d2 where
    d2: "ibm_IBMOpenAccessProvider_import_backend example_open_access = Inr d2" by blast
  from example_open_access_oa_py obtain d3 where
    d3: "ibm_open_access_IBMOpenAccessProvider_import_backend example_open_access = Inr d3"
    by blast
  from oqc_import_calibration_total [OF well_formed_example_oqc] obtain d4 where
    d4: "OQCProvider_import_backend example_files ''oqc_lucy'' = Inr d4"
    using OQCProvider_import_backend_file [of example_files "''oqc_lucy''" example_oqc, OF example_files_lucy] by auto
  from C6_calibration_keys [of example_ibm d1 example_open_access d2 example_open_access d3
      example_files "''oqc_lucy''" d4] d1 d2 d3 d4
  show ?thesis by simp
qed

section \<open>The live-object importers skip operations\<close>

lemma empty_tables_apply: "empty_tables ks k = (if k \<in> set ks then Some Map.empty else None)"
  by (induction ks) (auto simp: empty_tables_def)

lemma lookup2_empty_tables: "lookup2 (empty_tables ks) k g = None"
  by (simp add: lookup2_def empty_tables_apply)

lemma lookup2_empty: "lookup2 Map.empty k g = None"
  by (simp add: lookup2_def)

lemma lookup2_update_other:
  "g \<noteq> g' \<Longrightarrow> table k = Some m \<Longrightarrow>
     lookup2 (table(k \<mapsto> m(g' \<mapsto> v))) k' g = lookup2 table k' g"
  by (simp add: lookup2_def)

lemma lookup2_update_fresh:
  "g \<noteq> g' \<Longrightarrow> table k = None \<Longrightarrow>
     lookup2 (table(k \<mapsto> Map.empty(g' \<mapsto> v))) k' g = lookup2 table k' g"
  by (simp add: lookup2_def)

lemma gate_absent_readout:
  "gate_absent (cal\<lparr>readout_fidelity := rf, readout_duration := rd\<rparr>) g = gate_absent cal g"
  by (simp add: gate_absent_def)

lemma gate_absent_single:
  assumes "gate_absent cal g" and "g \<noteq> g'"
    and "single_qubit_gate_fidelity cal k = Some fm" and "single_qubit_gate_duration cal k = Some dm"
  shows "gate_absent (cal\<lparr> single_qubit_gate_fidelity :=
                            (single_qubit_gate_fidelity cal)(k \<mapsto> fm(g' \<mapsto> v)),
                          single_qubit_gate_duration :=
                            (single_qubit_gate_duration cal)(k \<mapsto> dm(g' \<mapsto> w)) \<rparr>) g"
  using assms by (simp add: gate_absent_def lookup2_update_other)

lemma gate_absent_two:
  assumes "gate_absent cal g" and "g \<noteq> g'"
    and "two_qubit_gate_fidelity cal k = Some fm" and "two_qubit_gate_duration cal k = Some dm"
  shows "gate_absent (cal\<lparr> two_qubit_gate_fidelity :=
                            (two_qubit_gate_fidelity cal)(k \<mapsto> fm(g' \<mapsto> v)),
                          two_qubit_gate_duration :=
                            (two_qubit_gate_duration cal)(k \<mapsto> dm(g' \<mapsto> w)) \<rparr>) g"
  using assms by (simp add: gate_absent_def lookup2_update_other)

lemma gate_absent_two_create:
  assumes "gate_absent cal g" and "g \<noteq> g'"
  shows "gate_absent (cal\<lparr> two_qubit_gate_fidelity :=
            (two_qubit_gate_fidelity cal)
              (k \<mapsto> (case two_qubit_gate_fidelity cal k of None \<Rightarrow> Map.empty | Some m \<Rightarrow> m)
                       (g' \<mapsto> v)),
          two_qubit_gate_duration :=
            (two_qubit_gate_duration cal)
              (k \<mapsto> (case two_qubit_gate_duration cal k of None \<Rightarrow> Map.empty | Some m \<Rightarrow> m)
                       (g' \<mapsto> w)) \<rparr>) g"
proof -
  have f: "lookup2 ((two_qubit_gate_fidelity cal)
              (k \<mapsto> (case two_qubit_gate_fidelity cal k of None \<Rightarrow> Map.empty | Some m \<Rightarrow> m)
                       (g' \<mapsto> v))) e g = lookup2 (two_qubit_gate_fidelity cal) e g" for e
    using assms(2)
    by (cases "two_qubit_gate_fidelity cal k")
       (simp_all add: lookup2_update_other lookup2_update_fresh)
  have d: "lookup2 ((two_qubit_gate_duration cal)
              (k \<mapsto> (case two_qubit_gate_duration cal k of None \<Rightarrow> Map.empty | Some m \<Rightarrow> m)
                       (g' \<mapsto> w))) e g = lookup2 (two_qubit_gate_duration cal) e g" for e
    using assms(2)
    by (cases "two_qubit_gate_duration cal k")
       (simp_all add: lookup2_update_other lookup2_update_fresh)
  show ?thesis using assms(1) by (simp add: gate_absent_def f d)
qed

lemma target_instruction_body_skip:
  "iname = ''reset'' \<or> iname = ''delay'' \<Longrightarrow> target_instruction_body tg cal (iname, qargs) = Inr cal"
  by (auto simp: target_instruction_body_def)

lemma target_instruction_body_run:
  assumes "iname \<noteq> ''reset''" and "iname \<noteq> ''delay''"
    and "instruction_props tg iname (qb # rest) = Inr ip"
  shows "target_instruction_body tg cal (iname, qb # rest) =
     (if iname = ''measure'' then
        Inr (cal\<lparr> readout_fidelity := (readout_fidelity cal)(qb \<mapsto> fsub 1 (error ip)),
                  readout_duration := (readout_duration cal)(qb \<mapsto> duration ip) \<rparr>)
      else if rest = [] then
        (case single_qubit_gate_fidelity cal qb of
           None \<Rightarrow> Inl KeyError
         | Some fm \<Rightarrow>
             (case single_qubit_gate_duration cal qb of
                None \<Rightarrow> Inl KeyError
              | Some dm \<Rightarrow>
                  Inr (cal\<lparr> single_qubit_gate_fidelity :=
                               (single_qubit_gate_fidelity cal)
                                 (qb \<mapsto> fm(iname \<mapsto> fsub 1 (error ip))),
                            single_qubit_gate_duration :=
                               (single_qubit_gate_duration cal)
                                 (qb \<mapsto> dm(iname \<mapsto> duration ip)) \<rparr>)))
      else if length rest = 1 then
        (case two_qubit_gate_fidelity cal (qb, rest ! 0) of
           None \<Rightarrow> Inl KeyError
         | Some fm \<Rightarrow>
             (case two_qubit_gate_duration cal (qb, rest ! 0) of
                None \<Rightarrow> Inl KeyError
              | Some dm \<Rightarrow>
                  Inr (cal\<lparr> two_qubit_gate_fidelity :=
                               (two_qubit_gate_fidelity cal)
                                 ((qb, rest ! 0) \<mapsto> fm(iname \<mapsto> fsub 1 (error ip))),
                            two_qubit_gate_duration :=
                               (two_qubit_gate_duration cal)
                                 ((qb, rest ! 0) \<mapsto> dm(iname \<mapsto> duration ip)) \<rparr>)))
      else Inr cal)"
  using assms by (simp add: target_instruction_body_def Let_def)

lemma target_instruction_body_raise:
  assumes "iname \<noteq> ''reset''" and "iname \<noteq> ''delay''"
  shows "instruction_props tg iname qargs = Inl ex \<Longrightarrow>
           target_instruction_body tg cal (iname, qargs) = Inl ex"
    and "instruction_props tg iname [] = Inr ip \<Longrightarrow>
           target_instruction_body tg cal (iname, []) = Inl IndexError"
  using assms by (simp_all add: target_instruction_body_def)

lemma target_instruction_body_absent:
  assumes "target_instruction_body tg cal ins = Inr cal'" and "gate_absent cal g"
    and "g = ''reset'' \<or> g = ''delay''"
  shows "gate_absent cal' g"
proof -
  obtain iname qargs where ins: "ins = (iname, qargs)" by (cases ins)
  show ?thesis
  proof (cases "iname = ''reset'' \<or> iname = ''delay''")
    case True
    then show ?thesis using assms(1,2) by (simp add: ins target_instruction_body_skip)
  next
    case False
    then have ne: "g \<noteq> iname" and nr: "iname \<noteq> ''reset''" and nd: "iname \<noteq> ''delay''"
      using assms(3) by auto
    obtain ip where ip: "instruction_props tg iname qargs = Inr ip"
    proof (cases "instruction_props tg iname qargs")
      case (Inl ex)
      then show ?thesis
        using assms(1) target_instruction_body_raise(1) [OF nr nd Inl, of cal] by (simp add: ins)
    next
      case (Inr ip)
      then show ?thesis by (rule that)
    qed
    obtain qb rest where q: "qargs = qb # rest"
    proof (cases qargs)
      case Nil
      then show ?thesis
        using assms(1) ip target_instruction_body_raise(2) [OF nr nd, of tg ip cal]
        by (simp add: ins)
    next
      case (Cons qb rest)
      then show ?thesis by (rule that)
    qed
    note run = target_instruction_body_run [OF nr nd ip [unfolded q], of cal]
    from assms(1) have res: "target_instruction_body tg cal (iname, qb # rest) = Inr cal'"
      by (simp add: ins q)
    show ?thesis
    proof (cases "iname = ''measure''")
      case True
      then have "cal' = cal\<lparr> readout_fidelity := (readout_fidelity cal)(qb \<mapsto> fsub 1 (error ip)),
                               readout_duration := (readout_duration cal)(qb \<mapsto> duration ip) \<rparr>"
        using res run by simp
      then show ?thesis using assms(2) by (simp only: gate_absent_readout)
    next
      case nm: False
      show ?thesis
      proof (cases "rest = []")
        case True
        from res run nm True have r1:
          "(case single_qubit_gate_fidelity cal qb of
           None \<Rightarrow> Inl KeyError
         | Some fm \<Rightarrow>
             (case single_qubit_gate_duration cal qb of
                None \<Rightarrow> Inl KeyError
              | Some dm \<Rightarrow>
                  Inr (cal\<lparr> single_qubit_gate_fidelity :=
                               (single_qubit_gate_fidelity cal)
                                 (qb \<mapsto> fm(iname \<mapsto> fsub 1 (error ip))),
                            single_qubit_gate_duration :=
                               (single_qubit_gate_duration cal)
                                 (qb \<mapsto> dm(iname \<mapsto> duration ip)) \<rparr>))) = Inr cal'"
          by simp
        then obtain fm where fm: "single_qubit_gate_fidelity cal qb = Some fm"
          by (cases "single_qubit_gate_fidelity cal qb") simp_all
        from r1 obtain dm where dm: "single_qubit_gate_duration cal qb = Some dm"
          unfolding fm by (cases "single_qubit_gate_duration cal qb") simp_all
        from r1 have "cal' = cal\<lparr> single_qubit_gate_fidelity :=
                               (single_qubit_gate_fidelity cal)
                                 (qb \<mapsto> fm(iname \<mapsto> fsub 1 (error ip))),
                            single_qubit_gate_duration :=
                               (single_qubit_gate_duration cal)
                                 (qb \<mapsto> dm(iname \<mapsto> duration ip)) \<rparr>"
          unfolding fm dm by simp
        then show ?thesis using gate_absent_single [OF assms(2) ne fm dm] by simp
      next
        case n1: False
        show ?thesis
        proof (cases "length rest = 1")
          case True
          from res run nm n1 True have r2:
            "(case two_qubit_gate_fidelity cal (qb, rest ! 0) of
           None \<Rightarrow> Inl KeyError
         | Some fm \<Rightarrow>
             (case two_qubit_gate_duration cal (qb, rest ! 0) of
                None \<Rightarrow> Inl KeyError
              | Some dm \<Rightarrow>
                  Inr (cal\<lparr> two_qubit_gate_fidelity :=
                               (two_qubit_gate_fidelity cal)
                                 ((qb, rest ! 0) \<mapsto> fm(iname \<mapsto> fsub 1 (error ip))),
                            two_qubit_gate_duration :=
                               (two_qubit_gate_duration cal)
                                 ((qb, rest ! 0) \<mapsto> dm(iname \<mapsto> duration ip)) \<rparr>))) = Inr cal'"
            by simp
          then obtain fm where fm: "two_qubit_gate_fidelity cal (qb, rest ! 0) = Some fm"
            by (cases "two_qubit_gate_fidelity cal (qb, rest ! 0)") simp_all
          from r2 obtain dm where dm: "two_qubit_gate_duration cal (qb, rest ! 0) = Some dm"
            unfolding fm by (cases "two_qubit_gate_duration cal (qb, rest ! 0)") simp_all
          from r2 have "cal' = cal\<lparr> two_qubit_gate_fidelity :=
                               (two_qubit_gate_fidelity cal)
                                 ((qb, rest ! 0) \<mapsto> fm(iname \<mapsto> fsub 1 (error ip))),
                            two_qubit_gate_duration :=
                               (two_qubit_gate_duration cal)
                                 ((qb, rest ! 0) \<mapsto> dm(iname \<mapsto> duration ip)) \<rparr>"
            unfolding fm dm by simp
          then show ?thesis using gate_absent_two [OF assms(2) ne fm dm] by simp
        next
          case False
          then have "cal' = cal" using res run nm n1 by simp
          then show ?thesis using assms(2) by simp
        qed
      qed
    qed
  qed
qed

lemma import_target_absent:
  assumes "import_target tg = Inr cal" and "g = ''reset'' \<or> g = ''delay''"
  shows "gate_absent cal g"
proof -
  define qs where "qs = py_range (int (length (qubit_properties tg)))"
  have unf: "import_target tg =
     (case for_each (target_qubit_body tg) qs DeviceCalibration_init of
        Inl ex \<Rightarrow> Inl ex
      | Inr cal1 \<Rightarrow>
          for_each (target_instruction_body tg) (instructions tg)
            (cal1\<lparr> single_qubit_gate_fidelity := empty_tables qs,
                   single_qubit_gate_duration := empty_tables qs,
                   two_qubit_gate_fidelity := empty_tables (coupling_map_edges tg),
                   two_qubit_gate_duration := empty_tables (coupling_map_edges tg) \<rparr>))"
    unfolding import_target_def qs_def Let_def ..
  obtain cal1 where l1: "for_each (target_qubit_body tg) qs DeviceCalibration_init = Inr cal1"
    using assms(1) unfolding unf
    by (cases "for_each (target_qubit_body tg) qs DeviceCalibration_init") simp_all
  have l2: "for_each (target_instruction_body tg) (instructions tg)
            (cal1\<lparr> single_qubit_gate_fidelity := empty_tables qs,
                   single_qubit_gate_duration := empty_tables qs,
                   two_qubit_gate_fidelity := empty_tables (coupling_map_edges tg),
                   two_qubit_gate_duration := empty_tables (coupling_map_edges tg) \<rparr>) = Inr cal"
    using assms(1) unfolding unf l1 by simp
  show ?thesis
  proof (rule for_each_invariant [OF l2, where P = "\<lambda>c. gate_absent c g"])
    show "gate_absent (cal1\<lparr> single_qubit_gate_fidelity := empty_tables qs,
                   single_qubit_gate_duration := empty_tables qs,
                   two_qubit_gate_fidelity := empty_tables (coupling_map_edges tg),
                   two_qubit_gate_duration := empty_tables (coupling_map_edges tg) \<rparr>) g"
      by (simp add: gate_absent_def lookup2_empty_tables)
  next
    fix s x s'
    assume "gate_absent s g" "target_instruction_body tg s x = Inr s'"
    then show "gate_absent s' g"
      using assms(2) target_instruction_body_absent [of tg s x s' g] by simp
  qed
qed

lemma backend_properties_gate_body_run:
  assumes "gate gt \<noteq> ''reset''"
    and "bp_gate_error bp (gate gt) (qubits gt) = Inr err"
    and "bp_gate_length bp (gate gt) (qubits gt) = Inr dur"
  shows "backend_properties_gate_body bp cal gt =
     (if length (qubits gt) = 1 then
        (case single_qubit_gate_fidelity cal (qubits gt ! 0) of
           None \<Rightarrow> Inl KeyError
         | Some fm \<Rightarrow>
             (case single_qubit_gate_duration cal (qubits gt ! 0) of
                None \<Rightarrow> Inl KeyError
              | Some dm \<Rightarrow>
                  Inr (cal\<lparr> single_qubit_gate_fidelity := (single_qubit_gate_fidelity cal)
                               (qubits gt ! 0 \<mapsto> fm(gate gt \<mapsto> fsub 1 err)),
                            single_qubit_gate_duration := (single_qubit_gate_duration cal)
                               (qubits gt ! 0 \<mapsto> dm(gate gt \<mapsto> dur)) \<rparr>)))
      else if length (qubits gt) = 2 then
        Inr (cal\<lparr> two_qubit_gate_fidelity :=
            (two_qubit_gate_fidelity cal)
              ((qubits gt ! 0, qubits gt ! 1) \<mapsto>
                 (case two_qubit_gate_fidelity cal (qubits gt ! 0, qubits gt ! 1) of
                    None \<Rightarrow> Map.empty | Some m \<Rightarrow> m)(gate gt \<mapsto> fsub 1 err)),
          two_qubit_gate_duration :=
            (two_qubit_gate_duration cal)
              ((qubits gt ! 0, qubits gt ! 1) \<mapsto>
                 (case two_qubit_gate_duration cal (qubits gt ! 0, qubits gt ! 1) of
                    None \<Rightarrow> Map.empty | Some m \<Rightarrow> m)(gate gt \<mapsto> dur)) \<rparr>)
      else Inr cal)"
  using assms by (simp add: backend_properties_gate_body_def Let_def)

lemma backend_properties_gate_body_raise:
  assumes "gate gt \<noteq> ''reset''"
  shows "bp_gate_error bp (gate gt) (qubits gt) = Inl ex \<Longrightarrow>
           backend_properties_gate_body bp cal gt = Inl ex"
    and "bp_gate_error bp (gate gt) (qubits gt) = Inr err \<Longrightarrow>
         bp_gate_length bp (gate gt) (qubits gt) = Inl ex \<Longrightarrow>
           backend_properties_gate_body bp cal gt = Inl ex"
  using assms by (simp_all add: backend_properties_gate_body_def)

lemma backend_properties_gate_body_absent:
  assumes "backend_properties_gate_body bp cal gt = Inr cal'" and "gate_absent cal ''reset''"
  shows "gate_absent cal' ''reset''"
proof (cases "gate gt = ''reset''")
  case True
  then show ?thesis using assms by (simp add: backend_properties_gate_body_def)
next
  case False
  then have ne: "''reset'' \<noteq> gate gt" by auto
  obtain err where err: "bp_gate_error bp (gate gt) (qubits gt) = Inr err"
  proof (cases "bp_gate_error bp (gate gt) (qubits gt)")
    case (Inl ex)
    then show ?thesis
      using assms(1) backend_properties_gate_body_raise(1) [OF False Inl, of cal] by simp
  next
    case (Inr err)
    then show ?thesis by (rule that)
  qed
  obtain dur where dur: "bp_gate_length bp (gate gt) (qubits gt) = Inr dur"
  proof (cases "bp_gate_length bp (gate gt) (qubits gt)")
    case (Inl ex)
    then show ?thesis
      using assms(1) backend_properties_gate_body_raise(2) [OF False err Inl, of cal] by simp
  next
    case (Inr dur)
    then show ?thesis by (rule that)
  qed
  note run = backend_properties_gate_body_run [OF False err dur, of cal]
  show ?thesis
  proof (cases "length (qubits gt) = 1")
    case True
    from assms(1) run True have r1:
      "(case single_qubit_gate_fidelity cal (qubits gt ! 0) of
           None \<Rightarrow> Inl KeyError
         | Some fm \<Rightarrow>
             (case single_qubit_gate_duration cal (qubits gt ! 0) of
                None \<Rightarrow> Inl KeyError
              | Some dm \<Rightarrow>
                  Inr (cal\<lparr> single_qubit_gate_fidelity := (single_qubit_gate_fidelity cal)
                               (qubits gt ! 0 \<mapsto> fm(gate gt \<mapsto> fsub 1 err)),
                            single_qubit_gate_duration := (single_qubit_gate_duration cal)
                               (qubits gt ! 0 \<mapsto> dm(gate gt \<mapsto> dur)) \<rparr>))) = Inr cal'"
      by simp
    then obtain fm where fm: "single_qubit_gate_fidelity cal (qubits gt ! 0) = Some fm"
      by (cases "single_qubit_gate_fidelity cal (qubits gt ! 0)") simp_all
    from r1 obtain dm where dm: "single_qubit_gate_duration cal (qubits gt ! 0) = Some dm"
      unfolding fm by (cases "single_qubit_gate_duration cal (qubits gt ! 0)") simp_all
    from r1 have "cal' = cal\<lparr> single_qubit_gate_fidelity := (single_qubit_gate_fidelity cal)
                               (qubits gt ! 0 \<mapsto> fm(gate gt \<mapsto> fsub 1 err)),
                            single_qubit_gate_duration := (single_qubit_gate_duration cal)
                               (qubits gt ! 0 \<mapsto> dm(gate gt \<mapsto> dur)) \<rparr>"
      unfolding fm dm by simp
    then show ?thesis using gate_absent_single [OF assms(2) ne fm dm] by simp
  next
    case n1: False
    show ?thesis
    proof (cases "length (qubits gt) = 2")
      case True
      then have "cal' = cal\<lparr> two_qubit_gate_fidelity :=
            (two_qubit_gate_fidelity cal)
              ((qubits gt ! 0, qubits gt ! 1) \<mapsto>
                 (case two_qubit_gate_fidelity cal (qubits gt ! 0, qubits gt ! 1) of
                    None \<Rightarrow> Map.empty | Some m \<Rightarrow> m)(gate gt \<mapsto> fsub 1 err)),
          two_qubit_gate_duration :=
            (two_qubit_gate_duration cal)
              ((qubits gt ! 0, qubits gt ! 1) \<mapsto>
                 (case two_qubit_gate_duration cal (qubits gt ! 0, qubits gt ! 1) of
                    None \<Rightarrow> Map.empty | Some m \<Rightarrow> m)(gate gt \<mapsto> dur)) \<rparr>"
        using assms(1) run n1 by simp
      then show ?thesis using gate_absent_two_create [OF assms(2) ne] by simp
    next
      case False
      then have "cal' = cal" using assms(1) run n1 by simp
      then show ?thesis using assms(2) by simp
    qed
  qed
qed

lemma backend_properties_qubit_body_frame:
  assumes "backend_properties_qubit_body bp s x = Inr s'"
  shows "two_qubit_gate_fidelity s' = two_qubit_gate_fidelity s \<and>
         two_qubit_gate_duration s' = two_qubit_gate_duration s"
proof -
  obtain v1 where v1: "bp_t1 bp x = Inr v1"
    using assms by (cases "bp_t1 bp x") (simp_all add: backend_properties_qubit_body_def)
  obtain v2 where v2: "bp_t2 bp x = Inr v2"
    using assms v1 by (cases "bp_t2 bp x") (simp_all add: backend_properties_qubit_body_def)
  obtain re where re: "bp_readout_error bp x = Inr re"
    using assms v1 v2
    by (cases "bp_readout_error bp x") (simp_all add: backend_properties_qubit_body_def)
  obtain rl where rl: "bp_readout_length bp x = Inr rl"
    using assms v1 v2 re
    by (cases "bp_readout_length bp x") (simp_all add: backend_properties_qubit_body_def)
  have "s' = s\<lparr> readout_fidelity := (readout_fidelity s)(x \<mapsto> fsub 1 re),
                    readout_duration := (readout_duration s)(x \<mapsto> rl),
                    t1 := (t1 s)(x \<mapsto> v1),
                    t2 := (t2 s)(x \<mapsto> v2) \<rparr>"
    using assms by (simp add: backend_properties_qubit_body_def v1 v2 re rl)
  then show ?thesis by simp
qed

lemma backend_properties_qubit_loop_frame:
  assumes "for_each (backend_properties_qubit_body bp) qs cal = Inr cal'"
  shows "two_qubit_gate_fidelity cal' = two_qubit_gate_fidelity cal \<and>
         two_qubit_gate_duration cal' = two_qubit_gate_duration cal"
proof (rule for_each_invariant [OF assms, where
      P = "\<lambda>c. two_qubit_gate_fidelity c = two_qubit_gate_fidelity cal \<and>
               two_qubit_gate_duration c = two_qubit_gate_duration cal"])
  show "two_qubit_gate_fidelity cal = two_qubit_gate_fidelity cal \<and>
        two_qubit_gate_duration cal = two_qubit_gate_duration cal" by simp
next
  fix s x s'
  assume "two_qubit_gate_fidelity s = two_qubit_gate_fidelity cal \<and>
          two_qubit_gate_duration s = two_qubit_gate_duration cal"
    "backend_properties_qubit_body bp s x = Inr s'"
  then show "two_qubit_gate_fidelity s' = two_qubit_gate_fidelity cal \<and>
             two_qubit_gate_duration s' = two_qubit_gate_duration cal"
    using backend_properties_qubit_body_frame [of bp s x s'] by simp
qed

lemma import_backend_properties_absent:
  assumes "import_backend_properties bp = Inr cal"
  shows "gate_absent cal ''reset''"
proof -
  define qs where "qs = py_range (int (bp_num_qubits bp))"
  have unf: "import_backend_properties bp =
     (case for_each (backend_properties_qubit_body bp) qs DeviceCalibration_init of
        Inl ex \<Rightarrow> Inl ex
      | Inr cal1 \<Rightarrow>
          for_each (backend_properties_gate_body bp) (bp_gates bp)
            (cal1\<lparr> single_qubit_gate_fidelity := empty_tables qs,
                   single_qubit_gate_duration := empty_tables qs \<rparr>))"
    unfolding import_backend_properties_def qs_def Let_def ..
  obtain cal1 where
    l1: "for_each (backend_properties_qubit_body bp) qs DeviceCalibration_init = Inr cal1"
    using assms unfolding unf
    by (cases "for_each (backend_properties_qubit_body bp) qs DeviceCalibration_init") simp_all
  have l2: "for_each (backend_properties_gate_body bp) (bp_gates bp)
            (cal1\<lparr> single_qubit_gate_fidelity := empty_tables qs,
                   single_qubit_gate_duration := empty_tables qs \<rparr>) = Inr cal"
    using assms unfolding unf l1 by simp
  have tq: "two_qubit_gate_fidelity cal1 = Map.empty" "two_qubit_gate_duration cal1 = Map.empty"
    using backend_properties_qubit_loop_frame [OF l1] by (simp_all add: DeviceCalibration_init_def)
  show ?thesis
  proof (rule for_each_invariant [OF l2, where P = "\<lambda>c. gate_absent c ''reset''"])
    show "gate_absent (cal1\<lparr> single_qubit_gate_fidelity := empty_tables qs,
               single_qubit_gate_duration := empty_tables qs \<rparr>) ''reset''"
      by (simp add: gate_absent_def lookup2_empty_tables tq lookup2_empty)
  next
    fix s x s'
    assume "gate_absent s ''reset''" "backend_properties_gate_body bp s x = Inr s'"
    then show "gate_absent s' ''reset''"
      using backend_properties_gate_body_absent [of bp s x s'] by simp
  qed
qed

lemma example_backend_properties_import:
  "\<exists>cal. import_backend_properties example_backend_properties = Inr cal \<and>
     lookup2 (single_qubit_gate_fidelity cal) 0 ''x'' = Some (fsub 1 0) \<and>
     lookup2 (single_qubit_gate_fidelity cal) 0 ''delay'' = Some (fsub 1 0) \<and>
     lookup2 (single_qubit_gate_duration cal) 0 ''delay'' = Some 0"
  by (simp add: import_backend_properties_def example_backend_properties_def py_range_1
      backend_properties_qubit_body_def backend_properties_gate_body_def empty_tables_apply
      DeviceCalibration_init_def lookup2_def Let_def)

lemma example_target_import:
  "\<exists>cal. import_target example_target = Inr cal \<and>
     lookup2 (single_qubit_gate_fidelity cal) 0 ''x'' = Some (fsub 1 0) \<and>
     lookup2 (two_qubit_gate_fidelity cal) (0, 1) ''cx'' = Some (fsub 1 0) \<and>
     readout_fidelity cal 0 = Some (fsub 1 0)"
  by (simp add: import_target_def example_target_def py_range_2 target_qubit_body_def
      target_instruction_body_def empty_tables_apply DeviceCalibration_init_def lookup2_def
      Let_def)

section \<open>The claims about the live-object importers and the provider\<close>

text \<open>
  C8.  The calibration that \<open>import_target\<close> returns has no fidelity or
  duration entry under the gate names \<open>reset\<close> and \<open>delay\<close>; the calibration that
  \<open>import_backend_properties\<close> returns has none under \<open>reset\<close>.
\<close>

theorem C8_skipped_operations:
  "(import_target tg = Inr cal \<longrightarrow> gate_absent cal ''reset'' \<and> gate_absent cal ''delay'') \<and>
   (import_backend_properties bp = Inr cal' \<longrightarrow> gate_absent cal' ''reset'')"
  using import_target_absent [of tg cal] import_backend_properties_absent [of bp cal'] by simp

theorem C8_skipped_operations_witness:
  "\<not> isl (import_target example_target) \<and>
   \<not> isl (import_backend_properties example_backend_properties) \<and>
   gate_absent (projr (import_target example_target)) ''reset'' \<and>
   gate_absent (projr (import_target example_target)) ''delay'' \<and>
   gate_absent (projr (import_backend_properties example_backend_properties)) ''reset'' \<and>
   lookup2 (single_qubit_gate_fidelity (projr (import_target example_target))) 0 ''x''
     = Some (fsub 1 0)"
proof -
  from example_target_import obtain cal where
    c: "import_target example_target = Inr cal" and
    x: "lookup2 (single_qubit_gate_fidelity cal) 0 ''x'' = Some (fsub 1 0)"
    by blast
  from example_backend_properties_import obtain cal' where
    c': "import_backend_properties example_backend_properties = Inr cal'"
    by blast
  from C8_skipped_operations [of example_target cal example_backend_properties cal'] c c' x
  show ?thesis by simp
qed

text \<open>
  C8, \<open>delay\<close> in \<open>import_backend_properties\<close>.  For the example object, whose
  gates include \<open>delay\<close> on qubit \<open>0\<close>, the returned calibration has a fidelity and a
  duration entry under \<open>delay\<close>.
\<close>

theorem C8_delay_recorded_counterexample:
  "\<not> isl (import_backend_properties example_backend_properties) \<and>
   lookup2 (single_qubit_gate_fidelity
       (projr (import_backend_properties example_backend_properties))) 0 ''delay''
     = Some (fsub 1 0) \<and>
   lookup2 (single_qubit_gate_duration
       (projr (import_backend_properties example_backend_properties))) 0 ''delay''
     = Some 0 \<and>
   \<not> gate_absent (projr (import_backend_properties example_backend_properties)) ''delay''"
proof -
  from example_backend_properties_import obtain cal where
    c: "import_backend_properties example_backend_properties = Inr cal" and
    f: "lookup2 (single_qubit_gate_fidelity cal) 0 ''delay'' = Some (fsub 1 0)" and
    d: "lookup2 (single_qubit_gate_duration cal) 0 ''delay'' = Some 0"
    by blast
  have "\<not> gate_absent cal ''delay''"
  proof
    assume "gate_absent cal ''delay''"
    then have "lookup2 (single_qubit_gate_fidelity cal) 0 ''delay'' = None"
      unfolding gate_absent_def by blast
    then show False using f by simp
  qed
  then show ?thesis using f d by (simp add: c)
qed

text \<open>
  C1.  For a name that is not among the available device names,
  \<open>get_device\<close> fails with \<open>ValueError("Device {name} not found.")\<close>.  For a name that is,
  the name check raises nothing: the result is that of \<open>import_backend(name)\<close>, its device
  passed through \<open>sanitize_device\<close> when \<open>sanitize_device\<close> is true, or its exception.
\<close>

theorem C1_get_device:
  "(nm \<notin> set (get_available_device_names cls) \<longrightarrow>
      get_device cls sanitize nm sd = Inl (ValueError (''Device '' @ nm @ '' not found.''))) \<and>
   (nm \<in> set (get_available_device_names cls) \<longrightarrow>
      (\<forall>ex. import_backend cls nm = Inl ex \<longrightarrow> get_device cls sanitize nm sd = Inl ex) \<and>
      (\<forall>d. import_backend cls nm = Inr d \<longrightarrow>
         get_device cls sanitize nm False = Inr d \<and>
         get_device cls sanitize nm True = sanitize d))"
  by (simp add: get_device_def)

lemma import_example_lucy:
  "\<exists>d. OQCProvider_import_backend example_files ''oqc_lucy'' = Inr d \<and>
     basis_gates d = [''rz'', ''sx'', ''x'', ''ecr'', ''measure'']"
proof -
  from oqc_import_entries [OF well_formed_example_oqc] obtain d where
    "oqc_import_calibration example_oqc = Inr d" "basis_gates d = json_basis_gates example_oqc"
    by blast
  then show ?thesis
    by (simp add: OQCProvider_import_backend_def example_files_def example_oqc_def)
qed

lemma well_formed_example_toshiko:
  "well_formed_oqc (example_oqc\<lparr>json_name := ''oqc_toshiko''\<rparr>)"
  by (simp add: well_formed_oqc_def example_oqc_def py_range_2 str_0 str_1)

lemma import_example_toshiko:
  "\<exists>d. OQCProvider_import_backend example_files ''oqc_toshiko'' = Inr d \<and>
     basis_gates d = [''rz'', ''sx'', ''x'', ''ecr'', ''measure'']"
proof -
  from oqc_import_entries [OF well_formed_example_toshiko] obtain d where
    "oqc_import_calibration (example_oqc\<lparr>json_name := ''oqc_toshiko''\<rparr>) = Inr d"
    "basis_gates d = json_basis_gates (example_oqc\<lparr>json_name := ''oqc_toshiko''\<rparr>)"
    by blast
  then show ?thesis
    by (simp add: OQCProvider_import_backend_def example_files_def example_oqc_def)
qed

theorem C1_get_device_witness:
  "''nonexistent_device'' \<notin> set (get_available_device_names (OQCProvider example_files)) \<and>
   get_device (OQCProvider example_files) Inr ''nonexistent_device'' False
     = Inl (ValueError ''Device nonexistent_device not found.'') \<and>
   ''oqc_lucy'' \<in> set (get_available_device_names (OQCProvider example_files)) \<and>
   \<not> isl (import_backend (OQCProvider example_files) ''oqc_lucy'') \<and>
   get_device (OQCProvider example_files) Inr ''oqc_lucy'' True
     = import_backend (OQCProvider example_files) ''oqc_lucy''"
proof -
  from import_example_lucy obtain d where
    d: "import_backend (OQCProvider example_files) ''oqc_lucy'' = Inr d"
    by (auto simp: OQCProvider_def)
  have n: "''nonexistent_device'' \<notin> set (get_available_device_names (OQCProvider example_files))"
    and l: "''oqc_lucy'' \<in> set (get_available_device_names (OQCProvider example_files))"
    by (simp_all add: OQCProvider_def)
  from C1_get_device [of "''nonexistent_device''" "OQCProvider example_files" Inr False] n
  have 1: "get_device (OQCProvider example_files) Inr ''nonexistent_device'' False
     = Inl (ValueError ''Device nonexistent_device not found.'')"
    by simp
  from C1_get_device [of "''oqc_lucy''" "OQCProvider example_files" Inr True] l d
  have 2: "get_device (OQCProvider example_files) Inr ''oqc_lucy'' True = Inr d"
    by simp
  show ?thesis using n l 1 2 d by simp
qed

text \<open>
  C1, the error class.  For an unknown name the exception is a
  \<open>ValueError\<close>, not an \<open>UnknownDeviceError\<close>.
\<close>

theorem C1_error_class_counterexample:
  "get_device (OQCProvider example_files) Inr ''nonexistent_device'' False
     = Inl (ValueError ''Device nonexistent_device not found.'') \<and>
   get_device (OQCProvider example_files) Inr ''nonexistent_device'' False
     \<noteq> Inl UnknownDeviceError"
  by (simp add: get_device_def OQCProvider_def)

lemma map_raise_Inr:
  "\<forall>x\<in>set xs. \<not> isl (f x) \<Longrightarrow> map_raise f xs = Inr (map (\<lambda>x. projr (f x)) xs)"
proof (induction xs)
  case Nil
  then show ?case by simp
next
  case (Cons x xs)
  then obtain y where "f x = Inr y" by (cases "f x") auto
  then show ?case using Cons by simp
qed

text \<open>
  C7.  \<open>get_available_basis_gates\<close> never returns a list with a repeated element, and
  when the import of every available device succeeds it returns a list whose elements
  are exactly the basis-gate sequences of the imported devices.
\<close>

theorem C7_available_basis_gates:
  "(\<forall>gs. get_available_basis_gates cls sanitize = Inr gs \<longrightarrow> distinct gs) \<and>
   ((\<forall>nm\<in>set (get_available_device_names cls). \<not> isl (import_backend cls nm)) \<longrightarrow>
      (\<exists>gs. get_available_basis_gates cls sanitize = Inr gs \<and> distinct gs \<and>
         set gs = (\<lambda>nm. basis_gates (projr (import_backend cls nm)))
                    ` set (get_available_device_names cls)))"
proof (intro conjI allI impI)
  fix gs assume "get_available_basis_gates cls sanitize = Inr gs"
  then show "distinct gs"
    by (auto simp: get_available_basis_gates_def split: sum.splits)
next
  assume ok: "\<forall>nm\<in>set (get_available_device_names cls). \<not> isl (import_backend cls nm)"
  have gd: "get_device cls sanitize nm False = import_backend cls nm"
    if "nm \<in> set (get_available_device_names cls)" for nm
    using that by (cases "import_backend cls nm") (simp_all add: get_device_def)
  have "\<forall>nm\<in>set (get_available_device_names cls). \<not> isl (get_device cls sanitize nm False)"
    using ok gd by simp
  then have "get_available_devices cls sanitize False
      = Inr (map (\<lambda>nm. projr (get_device cls sanitize nm False)) (get_available_device_names cls))"
    unfolding get_available_devices_def by (rule map_raise_Inr)
  also have "map (\<lambda>nm. projr (get_device cls sanitize nm False)) (get_available_device_names cls)
      = map (\<lambda>nm. projr (import_backend cls nm)) (get_available_device_names cls)"
    using gd by simp
  finally have ds: "get_available_devices cls sanitize False
      = Inr (map (\<lambda>nm. projr (import_backend cls nm)) (get_available_device_names cls))" .
  show "\<exists>gs. get_available_basis_gates cls sanitize = Inr gs \<and> distinct gs \<and>
         set gs = (\<lambda>nm. basis_gates (projr (import_backend cls nm)))
                    ` set (get_available_device_names cls)"
    by (auto simp: get_available_basis_gates_def ds)
qed

theorem C7_available_basis_gates_witness:
  "\<not> isl (import_backend example_provider ''oqc_lucy'') \<and>
   \<not> isl (import_backend example_provider ''oqc_toshiko'') \<and>
   basis_gates (projr (import_backend example_provider ''oqc_lucy''))
     = basis_gates (projr (import_backend example_provider ''oqc_toshiko'')) \<and>
   get_available_basis_gates example_provider Inr = Inr [[''rz'', ''sx'', ''x'', ''ecr'', ''measure'']]"
proof -
  from import_example_lucy obtain d1 where
    d1: "import_backend example_provider ''oqc_lucy'' = Inr d1" and
    b1: "basis_gates d1 = [''rz'', ''sx'', ''x'', ''ecr'', ''measure'']"
    by (auto simp: example_provider_def)
  from import_example_toshiko obtain d2 where
    d2: "import_backend example_provider ''oqc_toshiko'' = Inr d2" and
    b2: "basis_gates d2 = [''rz'', ''sx'', ''x'', ''ecr'', ''measure'']"
    by (auto simp: example_provider_def)
  have names: "get_available_device_names example_provider = [''oqc_lucy'', ''oqc_toshiko'']"
    by (simp add: example_provider_def)
  have ok: "\<forall>nm\<in>set (get_available_device_names example_provider).
      \<not> isl (import_backend example_provider nm)"
    using d1 d2 by (simp add: names)
  from C7_available_basis_gates [of example_provider Inr] ok obtain gs where
    gs: "get_available_basis_gates example_provider Inr = Inr gs" and
    di: "distinct gs" and
    se: "set gs = (\<lambda>nm. basis_gates (projr (import_backend example_provider nm)))
                    ` set (get_available_device_names example_provider)"
    by blast
  have sg: "set gs = {[''rz'', ''sx'', ''x'', ''ecr'', ''measure'']}"
    using se d1 d2 b1 b2 by (simp add: names)
  have "length gs = 1" using di sg distinct_card [of gs] by simp
  then obtain y where "gs = [y]" by (cases gs) auto
  then have "gs = [[''rz'', ''sx'', ''x'', ''ecr'', ''measure'']]"
    using sg by simp
  then show ?thesis using d1 d2 b1 b2 gs by simp
qed

end
